theory Spec2Isabelle
  imports Complex_Main
begin

section \<open>NexoShop: cart, checkout and fulfilment over a remote data service\<close>

text \<open>
  The storefront keeps all persistent data in a hosted relational database and talks to it
  through a query client. The tables come from the SQL migration
  (\<^verbatim>\<open>supabase/migrations/20260116123744_....sql\<close>), the client code from
  \<^verbatim>\<open>src/contexts/CartContext.tsx\<close> (cart), the \<^verbatim>\<open>Checkout\<close> component and the
  \<^verbatim>\<open>Admin\<close> component (\<^verbatim>\<open>src/pages/Admin.tsx\<close>).

  Conventions of the embedding:
  \<^item> a table is the list of its rows, a row a record of the columns the client code reads
    or writes; UUIDs and texts are strings; \<^verbatim>\<open>INTEGER\<close> columns are \<open>int\<close>;
    \<^verbatim>\<open>DECIMAL(10,2)\<close> columns are exact rationals (binary floating point rounding of the
    JavaScript \<^verbatim>\<open>number\<close> type is not modelled);
  \<^item> React state, \<^verbatim>\<open>localStorage\<close> and the database are fields of one record \<open>world\<close>
    that every handler takes and returns;
  \<^item> every \<^verbatim>\<open>await supabase...\<close> is one remote request. The data service is outside the
    program, so its verdict on the k-th request is a parameter \<open>reply_of w k\<close>: the request
    is carried out (\<open>Accepted\<close>), it resolves to \<^verbatim>\<open>{ data: null, error }\<close> (\<open>Refused\<close>: a
    policy, a network failure, ...), or the promise rejects (\<open>Thrown\<close>). An accepted
    request still resolves to an error when it breaks a \<^verbatim>\<open>UNIQUE\<close> or \<^verbatim>\<open>CHECK\<close>
    constraint that the migration declares on the columns modelled here, or when
    \<^verbatim>\<open>.single()\<close> / \<^verbatim>\<open>.maybeSingle()\<close> does not find the number of rows it requires.
    Primary keys, foreign keys and the row-level-security policies are not modelled: a
    request that they would stop is one that the service refuses;
  \<^item> a \<^verbatim>\<open>throw\<close> is the left injection of a sum; \<^verbatim>\<open>try/catch\<close> is a case split on it;
  \<^item> \<^verbatim>\<open>toast.success\<close> / \<^verbatim>\<open>toast.error\<close> append to the list \<open>toasts\<close>;
    \<^verbatim>\<open>console.error\<close> has no modelled effect.
\<close>

subsection \<open>Tables\<close>

type_synonym uuid = string

record product_row =
  prod_id :: uuid
  prod_name :: string
  prod_price :: rat
  prod_stock :: int

record cart_row =
  crt_id :: uuid
  crt_user_id :: "uuid option"
  crt_session_id :: "string option"

record cart_item_row =
  ci_id :: uuid
  ci_cart_id :: uuid
  ci_product_id :: uuid
  ci_quantity :: int

record order_row =
  ord_id :: uuid
  ord_user_id :: uuid
  ord_status :: string
  ord_total :: rat
  ord_shipping_address :: string
  ord_shipping_city :: string
  ord_payment_method :: string
  ord_notes :: "string option"

record order_item_row =
  oi_id :: uuid
  oi_order_id :: uuid
  oi_product_id :: uuid
  oi_product_name :: string
  oi_product_price :: rat
  oi_quantity :: int
  oi_subtotal :: rat

record database =
  tbl_products :: "product_row list"
  tbl_carts :: "cart_row list"
  tbl_cart_items :: "cart_item_row list"
  tbl_orders :: "order_row list"
  tbl_order_items :: "order_item_row list"

subsection \<open>Client state\<close>

text \<open>A \<^verbatim>\<open>CartItem\<close> as \<^verbatim>\<open>select('*, products(*)')\<close> returns it: the row and the joined product.\<close>

record cart_item =
  item_id :: uuid
  item_cart_id :: uuid
  item_product_id :: uuid
  item_quantity :: int
  item_products :: "product_row option"

datatype CheckoutStep = Shipping | Payment | Confirmation | Success

record shipping_data =
  fullName :: string
  address :: string
  city :: string
  phone :: string
  notes_text :: string

record card_data =
  card_number :: string
  card_expiry :: string
  card_cvv :: string
  card_name :: string

text \<open>
  The notices shown to the user, one constructor per call site:
  \<^item> \<open>Added\<close>: \<^verbatim>\<open>toast.success('Producto agregado al carrito')\<close>;
    \<open>Add_failed\<close>: \<^verbatim>\<open>toast.error('Error al agregar producto')\<close>;
  \<^item> \<open>Removed\<close>: \<^verbatim>\<open>toast.success('Producto eliminado')\<close>;
    \<open>Remove_failed\<close>: \<^verbatim>\<open>toast.error('Error al eliminar producto')\<close>;
  \<^item> \<open>Update_failed\<close>: \<^verbatim>\<open>toast.error('Error al actualizar cantidad')\<close>;
  \<^item> \<open>Required_fields\<close>: \<^verbatim>\<open>toast.error('Por favor completa todos los campos requeridos')\<close>;
    \<open>Card_fields\<close>: \<^verbatim>\<open>toast.error('Por favor completa los datos de la tarjeta')\<close>;
  \<^item> \<open>Purchased\<close>: the success toast of \<^verbatim>\<open>processOrder\<close>;
    \<open>Purchase_failed\<close>: its error toast;
  \<^item> \<open>Completed\<close>: \<^verbatim>\<open>toast.success('Pedido completado y stock actualizado')\<close>;
    \<open>Complete_failed\<close>: \<^verbatim>\<open>toast.error('Error al completar el pedido')\<close>.
\<close>

datatype toast =
    Added | Add_failed | Removed | Remove_failed | Update_failed
  | Required_fields | Card_fields | Purchased | Purchase_failed
  | Completed | Complete_failed

datatype reply = Accepted uuid | Refused | Thrown

record world =
  db :: database
  reply_of :: "nat \<Rightarrow> reply"
  calls :: nat
  user :: "uuid option"
  cart_session_id :: "string option"
  random_uuid :: string
  items :: "cart_item list"
  cartId :: "uuid option"
  loading :: bool
  step :: CheckoutStep
  processing :: bool
  shippingData :: shipping_data
  paymentMethod :: string
  cardData :: card_data
  updatingOrderId :: "uuid option"
  toasts :: "toast list"

definition toast_show :: "toast \<Rightarrow> world \<Rightarrow> world" where
  "toast_show t w = w\<lparr>toasts := toasts w @ [t]\<rparr>"

subsection \<open>Remote requests\<close>

text \<open>
  What the client sees of one awaited request: \<^verbatim>\<open>{ data, error: null }\<close>,
  \<^verbatim>\<open>{ data: null, error }\<close>, or a rejected promise.
\<close>

datatype 'a response = Data 'a | Error_response | Rejected

text \<open>
  A statement maps the UUID that \<^verbatim>\<open>gen_random_uuid()\<close> would produce and the database to
  \<open>None\<close> (the statement fails) or to its result and the new database. \<open>request\<close> sends
  it: the request is counted, and the database changes only when the service accepts it
  and the statement succeeds.
\<close>

type_synonym 'a statement = "uuid \<Rightarrow> database \<Rightarrow> ('a \<times> database) option"

definition request :: "'a statement \<Rightarrow> world \<Rightarrow> 'a response \<times> world" where
  "request q w =
     (let w' = w\<lparr>calls := Suc (calls w)\<rparr>
      in case reply_of w (calls w) of
           Thrown \<Rightarrow> (Rejected, w')
         | Refused \<Rightarrow> (Error_response, w')
         | Accepted u \<Rightarrow>
             (case q u (db w) of
                None \<Rightarrow> (Error_response, w')
              | Some (a, d) \<Rightarrow> (Data a, w'\<lparr>db := d\<rparr>)))"

subsection \<open>The statements the client sends\<close>

text \<open>
  \<^verbatim>\<open>from('carts').select('id') ... .maybeSingle()\<close>, the filter being
  \<^verbatim>\<open>.eq('user_id', user.id)\<close> or \<^verbatim>\<open>.eq('session_id', sessionId).is('user_id', null)\<close>:
  no row gives \<^verbatim>\<open>data: null\<close>, one row gives the row, several rows give an error.
\<close>

definition carts_select_id_maybeSingle :: "(cart_row \<Rightarrow> bool) \<Rightarrow> uuid option statement" where
  "carts_select_id_maybeSingle flt u d =
     (case filter flt (tbl_carts d) of
        [] \<Rightarrow> Some (None, d)
      | [c] \<Rightarrow> Some (Some (crt_id c), d)
      | _ \<Rightarrow> None)"

text \<open>
  \<^verbatim>\<open>from('carts').insert(...).select('id').single()\<close>; the table's
  \<^verbatim>\<open>CHECK (user_id IS NOT NULL OR session_id IS NOT NULL)\<close>.
\<close>

definition carts_insert :: "uuid option \<Rightarrow> string option \<Rightarrow> uuid statement" where
  "carts_insert uid sid u d =
     (if uid = None \<and> sid = None then None
      else Some (u, d\<lparr>tbl_carts := tbl_carts d
             @ [\<lparr>crt_id = u, crt_user_id = uid, crt_session_id = sid\<rparr>]\<rparr>))"

text \<open>\<^verbatim>\<open>from('cart_items').select('*, products(*)').eq('cart_id', id)\<close>\<close>

definition join_product :: "database \<Rightarrow> cart_item_row \<Rightarrow> cart_item" where
  "join_product d r =
     \<lparr>item_id = ci_id r, item_cart_id = ci_cart_id r, item_product_id = ci_product_id r,
      item_quantity = ci_quantity r,
      item_products = find (\<lambda>p. prod_id p = ci_product_id r) (tbl_products d)\<rparr>"

definition cart_items_select :: "uuid \<Rightarrow> cart_item list statement" where
  "cart_items_select cid u d =
     Some (map (join_product d) (filter (\<lambda>r. ci_cart_id r = cid) (tbl_cart_items d)), d)"

text \<open>
  \<^verbatim>\<open>from('cart_items').insert({ cart_id, product_id, quantity })\<close>; the table's
  \<^verbatim>\<open>CHECK (quantity > 0)\<close> and \<^verbatim>\<open>UNIQUE (cart_id, product_id)\<close>.
\<close>

definition cart_items_insert :: "uuid \<Rightarrow> uuid \<Rightarrow> int \<Rightarrow> unit statement" where
  "cart_items_insert cid pid q u d =
     (if q \<le> 0 \<or> (\<exists>r \<in> set (tbl_cart_items d). ci_cart_id r = cid \<and> ci_product_id r = pid)
      then None
      else Some ((), d\<lparr>tbl_cart_items := tbl_cart_items d
             @ [\<lparr>ci_id = u, ci_cart_id = cid, ci_product_id = pid, ci_quantity = q\<rparr>]\<rparr>))"

text \<open>\<^verbatim>\<open>from('cart_items').delete().eq('id', itemId)\<close>\<close>

definition cart_items_delete_id :: "uuid \<Rightarrow> unit statement" where
  "cart_items_delete_id i u d =
     Some ((), d\<lparr>tbl_cart_items := filter (\<lambda>r. ci_id r \<noteq> i) (tbl_cart_items d)\<rparr>)"

text \<open>
  \<^verbatim>\<open>from('cart_items').update({ quantity }).eq('id', itemId)\<close>; the
  \<^verbatim>\<open>CHECK (quantity > 0)\<close> applies to the rows the update touches.
\<close>

definition cart_items_update_quantity :: "uuid \<Rightarrow> int \<Rightarrow> unit statement" where
  "cart_items_update_quantity i q u d =
     (if q \<le> 0 \<and> (\<exists>r \<in> set (tbl_cart_items d). ci_id r = i) then None
      else Some ((), d\<lparr>tbl_cart_items :=
             map (\<lambda>r. if ci_id r = i then r\<lparr>ci_quantity := q\<rparr> else r) (tbl_cart_items d)\<rparr>))"

text \<open>\<^verbatim>\<open>from('cart_items').delete().eq('cart_id', cartId)\<close>\<close>

definition cart_items_delete_cart :: "uuid \<Rightarrow> unit statement" where
  "cart_items_delete_cart cid u d =
     Some ((), d\<lparr>tbl_cart_items := filter (\<lambda>r. ci_cart_id r \<noteq> cid) (tbl_cart_items d)\<rparr>)"

text \<open>
  \<^verbatim>\<open>from('orders').insert({...}).select('id').single()\<close>; the table's \<^verbatim>\<open>CHECK\<close> on
  \<^verbatim>\<open>status\<close>. The argument carries the columns of the new row; its id is generated.
\<close>

definition order_statuses :: "string list" where
  "order_statuses = [''pending'', ''processing'', ''shipped'', ''delivered'', ''cancelled'']"

definition orders_insert :: "order_row \<Rightarrow> uuid statement" where
  "orders_insert r u d =
     (if ord_status r \<in> set order_statuses
      then Some (u, d\<lparr>tbl_orders := tbl_orders d @ [r\<lparr>ord_id := u\<rparr>]\<rparr>)
      else None)"

text \<open>\<^verbatim>\<open>from('order_items').insert({...})\<close>; the id of the new row is generated.\<close>

definition order_items_insert :: "order_item_row \<Rightarrow> unit statement" where
  "order_items_insert r u d =
     Some ((), d\<lparr>tbl_order_items := tbl_order_items d @ [r\<lparr>oi_id := u\<rparr>]\<rparr>)"

text \<open>
  \<^verbatim>\<open>from('products').select('stock').eq('id', id).single()\<close>: exactly one row, or an error.
\<close>

definition products_select_stock_single :: "uuid \<Rightarrow> int statement" where
  "products_select_stock_single pid u d =
     (case filter (\<lambda>p. prod_id p = pid) (tbl_products d) of
        [p] \<Rightarrow> Some (prod_stock p, d)
      | _ \<Rightarrow> None)"

text \<open>\<^verbatim>\<open>from('products').update({ stock: newStock }).eq('id', id)\<close>\<close>

definition products_update_stock :: "uuid \<Rightarrow> int \<Rightarrow> unit statement" where
  "products_update_stock pid n u d =
     Some ((), d\<lparr>tbl_products :=
       map (\<lambda>p. if prod_id p = pid then p\<lparr>prod_stock := n\<rparr> else p) (tbl_products d)\<rparr>)"

text \<open>
  \<^verbatim>\<open>from('orders').update({ status }).eq('id', id)\<close>; the \<^verbatim>\<open>CHECK\<close> on \<^verbatim>\<open>status\<close>
  applies to the rows the update touches.
\<close>

definition orders_update_status :: "uuid \<Rightarrow> string \<Rightarrow> unit statement" where
  "orders_update_status oid s u d =
     (if s \<notin> set order_statuses \<and> (\<exists>r \<in> set (tbl_orders d). ord_id r = oid) then None
      else Some ((), d\<lparr>tbl_orders :=
             map (\<lambda>r. if ord_id r = oid then r\<lparr>ord_status := s\<rparr> else r) (tbl_orders d)\<rparr>))"

subsection \<open>CartContext\<close>

datatype exn = Exn

text \<open>
  \<^verbatim>\<open>getSessionId\<close>: the token in \<^verbatim>\<open>localStorage\<close>, or a new one from
  \<^verbatim>\<open>crypto.randomUUID()\<close> (the field \<open>random_uuid\<close>) that is stored before it is returned.
\<close>

definition getSessionId :: "world \<Rightarrow> string \<times> world" where
  "getSessionId w =
     (case cart_session_id w of
        Some s \<Rightarrow>
          if s \<noteq> [] then (s, w)
          else (random_uuid w, w\<lparr>cart_session_id := Some (random_uuid w)\<rparr>)
      | None \<Rightarrow> (random_uuid w, w\<lparr>cart_session_id := Some (random_uuid w)\<rparr>))"

text \<open>The filter of the lookup in \<^verbatim>\<open>getOrCreateCart\<close>, by the branch on \<^verbatim>\<open>user\<close>.\<close>

definition owner_filter :: "uuid option \<Rightarrow> string \<Rightarrow> cart_row \<Rightarrow> bool" where
  "owner_filter usr sessionId c =
     (case usr of
        Some uid \<Rightarrow> crt_user_id c = Some uid
      | None \<Rightarrow> crt_session_id c = Some sessionId \<and> crt_user_id c = None)"

text \<open>
  \<^verbatim>\<open>getOrCreateCart\<close>. The lookup reads only \<^verbatim>\<open>data\<close> of its result, so an error there
  leaves \<^verbatim>\<open>existingCart\<close> null; the insert rethrows its \<^verbatim>\<open>error\<close>.
\<close>

definition getOrCreateCart :: "world \<Rightarrow> (exn + uuid) \<times> world" where
  "getOrCreateCart w0 =
     (case getSessionId w0 of (sessionId, w) \<Rightarrow>
        (case request (carts_select_id_maybeSingle (owner_filter (user w) sessionId)) w of
           (Rejected, w1) \<Rightarrow> (Inl Exn, w1)
         | (res, w1) \<Rightarrow>
             (case (case res of Data existingCart \<Rightarrow> existingCart | _ \<Rightarrow> None) of
                Some cid \<Rightarrow> (Inr cid, w1)
              | None \<Rightarrow>
                  (case request (carts_insert (user w)
                           (case user w of Some uid \<Rightarrow> None | None \<Rightarrow> Some sessionId)) w1 of
                     (Data newCart, w2) \<Rightarrow> (Inr newCart, w2)
                   | (_, w2) \<Rightarrow> (Inl Exn, w2)))))"







text \<open>The constraint \<^verbatim>\<open>UNIQUE (cart_id, product_id)\<close> as a property of the table.\<close>

definition one_row_per_product :: "database \<Rightarrow> bool" where
  "one_row_per_product d =
     distinct (map (\<lambda>r. (ci_cart_id r, ci_product_id r)) (tbl_cart_items d))"

text \<open>\<^verbatim>\<open>refreshCart\<close>: every exception is caught; \<^verbatim>\<open>finally\<close> resets \<^verbatim>\<open>loading\<close>.\<close>

definition refreshCart :: "world \<Rightarrow> world" where
  "refreshCart w0 =
     (case getOrCreateCart (w0\<lparr>loading := True\<rparr>) of
        (Inl e, w1) \<Rightarrow> w1
      | (Inr cid, w1) \<Rightarrow>
          (case request (cart_items_select cid) (w1\<lparr>cartId := Some cid\<rparr>) of
             (Data rows, w2) \<Rightarrow> w2\<lparr>items := rows\<rparr>
           | (_, w2) \<Rightarrow> w2))
     \<lparr>loading := False\<rparr>"

text \<open>
  \<^verbatim>\<open>removeItem\<close>: the \<^verbatim>\<open>error\<close> of the awaited result is not read; a rejection is caught.
\<close>

definition removeItem :: "uuid \<Rightarrow> world \<Rightarrow> world" where
  "removeItem itemId w =
     (case request (cart_items_delete_id itemId) w of
        (Rejected, w1) \<Rightarrow> toast_show Remove_failed w1
      | (_, w1) \<Rightarrow>
          toast_show Removed
            (w1\<lparr>items := filter (\<lambda>item. item_id item \<noteq> itemId) (items w)\<rparr>))"

text \<open>\<^verbatim>\<open>updateQuantity\<close>\<close>

definition updateQuantity :: "uuid \<Rightarrow> int \<Rightarrow> world \<Rightarrow> world" where
  "updateQuantity itemId quantity w =
     (if quantity \<le> 0 then removeItem itemId w
      else (case request (cart_items_update_quantity itemId quantity) w of
              (Rejected, w1) \<Rightarrow> toast_show Update_failed w1
            | (_, w1) \<Rightarrow>
                w1\<lparr>items := map (\<lambda>item. if item_id item = itemId
                                        then item\<lparr>item_quantity := quantity\<rparr> else item)
                                (items w)\<rparr>))"

text \<open>
  \<^verbatim>\<open>addItem(product, quantity)\<close>. \<^verbatim>\<open>cartId || await getOrCreateCart()\<close> takes \<^verbatim>\<open>cartId\<close>
  when it is a non-empty string. The existing item is searched in the local list
  \<^verbatim>\<open>items\<close>. Neither \<^verbatim>\<open>updateQuantity\<close> nor \<^verbatim>\<open>refreshCart\<close> throws, and the \<^verbatim>\<open>error\<close> of
  the insert is not read. A caller that omits \<^verbatim>\<open>quantity\<close> passes 1.
\<close>

definition addItem :: "product_row \<Rightarrow> int \<Rightarrow> world \<Rightarrow> world" where
  "addItem product quantity w =
     (case (case cartId w of
              Some c \<Rightarrow> if c \<noteq> [] then (Inr c, w) else getOrCreateCart w
            | None \<Rightarrow> getOrCreateCart w) of
        (Inl e, w1) \<Rightarrow> toast_show Add_failed w1
      | (Inr cid, w1) \<Rightarrow>
          (case find (\<lambda>item. item_product_id item = prod_id product) (items w1) of
             Some existingItem \<Rightarrow>
               toast_show Added
                 (updateQuantity (item_id existingItem)
                    (item_quantity existingItem + quantity) w1)
           | None \<Rightarrow>
               (case request (cart_items_insert cid (prod_id product) quantity) w1 of
                  (Rejected, w2) \<Rightarrow> toast_show Add_failed w2
                | (_, w2) \<Rightarrow> toast_show Added (refreshCart w2))))"

text \<open>
  \<^verbatim>\<open>clearCart\<close>: \<^verbatim>\<open>if (cartId)\<close> holds for a non-empty string; the \<^verbatim>\<open>error\<close> of the
  awaited result is not read; a rejection is caught and only logged.
\<close>

definition clearCart :: "world \<Rightarrow> world" where
  "clearCart w =
     (case cartId w of
        None \<Rightarrow> w
      | Some c \<Rightarrow>
          if c = [] then w
          else (case request (cart_items_delete_cart c) w of
                  (Rejected, w1) \<Rightarrow> w1
                | (_, w1) \<Rightarrow> w1\<lparr>items := []\<rparr>))"

text \<open>
  \<^verbatim>\<open>total\<close>: \<^verbatim>\<open>items.reduce((sum, item) => sum + (item.products?.price ?? 0) * item.quantity, 0)\<close>
\<close>

definition price_or_0 :: "cart_item \<Rightarrow> rat" where
  "price_or_0 item = (case item_products item of Some p \<Rightarrow> prod_price p | None \<Rightarrow> 0)"

definition total_cart :: "cart_item list \<Rightarrow> rat" where
  "total_cart its = foldl (\<lambda>sum item. sum + price_or_0 item * of_int (item_quantity item)) 0 its"

subsection \<open>Checkout\<close>

text \<open>\<^verbatim>\<open>handleShippingSubmit\<close>: \<^verbatim>\<open>!s\<close> holds of a string exactly when it is empty.\<close>

definition handleShippingSubmit :: "world \<Rightarrow> world" where
  "handleShippingSubmit w =
     (if fullName (shippingData w) = [] \<or> address (shippingData w) = []
         \<or> city (shippingData w) = []
      then toast_show Required_fields w
      else w\<lparr>step := Payment\<rparr>)"

text \<open>\<^verbatim>\<open>handlePaymentSubmit\<close>\<close>

definition handlePaymentSubmit :: "world \<Rightarrow> world" where
  "handlePaymentSubmit w =
     (if paymentMethod w = ''card''
         \<and> (card_number (cardData w) = [] \<or> card_expiry (cardData w) = []
              \<or> card_cvv (cardData w) = [] \<or> card_name (cardData w) = [])
      then toast_show Card_fields w
      else w\<lparr>step := Confirmation\<rparr>)"

text \<open>
  \<^verbatim>\<open>item.products?.name || ''\<close> and \<^verbatim>\<open>item.products?.price || 0\<close>: \<^verbatim>\<open>||\<close> replaces
  every falsy value, so also the empty name and the price 0, by its right operand.
\<close>

definition name_else_empty :: "cart_item \<Rightarrow> string" where
  "name_else_empty item =
     (case item_products item of
        Some p \<Rightarrow> if prod_name p = [] then [] else prod_name p
      | None \<Rightarrow> [])"

definition price_else_0 :: "cart_item \<Rightarrow> rat" where
  "price_else_0 item =
     (case item_products item of
        Some p \<Rightarrow> if prod_price p = 0 then 0 else prod_price p
      | None \<Rightarrow> 0)"

text \<open>
  The object that \<^verbatim>\<open>processOrder\<close> inserts into \<^verbatim>\<open>order_items\<close> for one cart item; the
  id is generated by the insert.
\<close>

definition order_item_of :: "uuid \<Rightarrow> cart_item \<Rightarrow> order_item_row" where
  "order_item_of oid item =
     \<lparr>oi_id = [], oi_order_id = oid, oi_product_id = item_product_id item,
      oi_product_name = name_else_empty item,
      oi_product_price = price_else_0 item,
      oi_quantity = item_quantity item,
      oi_subtotal = price_else_0 item * of_int (item_quantity item)\<rparr>"

text \<open>
  The loop \<^verbatim>\<open>for (const item of items) await supabase.from('order_items').insert(...)\<close>:
  the \<^verbatim>\<open>error\<close> of an insert is not read; a rejection leaves the loop.
\<close>

fun insert_order_items :: "uuid \<Rightarrow> cart_item list \<Rightarrow> world \<Rightarrow> (exn + unit) \<times> world" where
  "insert_order_items oid [] w = (Inr (), w)"
| "insert_order_items oid (item # rest) w =
     (case request (order_items_insert (order_item_of oid item)) w of
        (Rejected, w1) \<Rightarrow> (Inl Exn, w1)
      | (_, w1) \<Rightarrow> insert_order_items oid rest w1)"

text \<open>
  \<^verbatim>\<open>processOrder\<close>. The two-second \<^verbatim>\<open>setTimeout\<close> has no effect on the state. With
  \<^verbatim>\<open>user\<close> null, \<^verbatim>\<open>user.id\<close> throws inside the \<^verbatim>\<open>try\<close> before any request is sent.
  \<^verbatim>\<open>notes: shippingData.notes || null\<close>.
\<close>

definition new_order :: "uuid \<Rightarrow> world \<Rightarrow> order_row" where
  "new_order uid w =
     \<lparr>ord_id = [], ord_user_id = uid, ord_status = ''pending'',
      ord_total = total_cart (items w),
      ord_shipping_address = address (shippingData w),
      ord_shipping_city = city (shippingData w),
      ord_payment_method = paymentMethod w,
      ord_notes = (if notes_text (shippingData w) = [] then None
                   else Some (notes_text (shippingData w)))\<rparr>"

definition processOrder :: "world \<Rightarrow> world" where
  "processOrder w0 =
     (let w = w0\<lparr>processing := True\<rparr>
      in (case user w of
            None \<Rightarrow> toast_show Purchase_failed w
          | Some uid \<Rightarrow>
              (case request (orders_insert (new_order uid w)) w of
                 (Data oid, w1) \<Rightarrow>
                   (case insert_order_items oid (items w) w1 of
                      (Inl e, w2) \<Rightarrow> toast_show Purchase_failed w2
                    | (Inr _, w2) \<Rightarrow> toast_show Purchased ((clearCart w2)\<lparr>step := Success\<rparr>))
               | (_, w1) \<Rightarrow> toast_show Purchase_failed w1)))
     \<lparr>processing := False\<rparr>"

subsection \<open>Admin\<close>

text \<open>The order as the admin list holds it (\<^verbatim>\<open>select('*, order_items(*)')\<close>).\<close>

record admin_order =
  order_id :: uuid
  order_items :: "order_item_row list"

text \<open>\<^verbatim>\<open>product?.stock || 0\<close>\<close>

definition or_0 :: "int \<Rightarrow> int" where
  "or_0 n = (if n = 0 then 0 else n)"

text \<open>
  One iteration of the loop of \<^verbatim>\<open>handleCompleteOrder\<close>: the stock is fetched (an error of the
  fetch is rethrown), the new stock is computed and written (the \<^verbatim>\<open>error\<close> of the update
  is not read).
\<close>

definition reduce_stock :: "order_item_row \<Rightarrow> world \<Rightarrow> (exn + unit) \<times> world" where
  "reduce_stock item w =
     (case request (products_select_stock_single (oi_product_id item)) w of
        (Data stock, w1) \<Rightarrow>
          (let newStock = max 0 (or_0 stock - oi_quantity item)
           in case request (products_update_stock (oi_product_id item) newStock) w1 of
                (Rejected, w2) \<Rightarrow> (Inl Exn, w2)
              | (_, w2) \<Rightarrow> (Inr (), w2))
      | (_, w1) \<Rightarrow> (Inl Exn, w1))"

fun reduce_stocks :: "order_item_row list \<Rightarrow> world \<Rightarrow> (exn + unit) \<times> world" where
  "reduce_stocks [] w = (Inr (), w)"
| "reduce_stocks (item # rest) w =
     (case reduce_stock item w of
        (Inl e, w1) \<Rightarrow> (Inl e, w1)
      | (Inr _, w1) \<Rightarrow> reduce_stocks rest w1)"

text \<open>
  \<^verbatim>\<open>handleCompleteOrder\<close>. The closing \<^verbatim>\<open>loadData()\<close> is not awaited and only reads, so
  it is left out.
\<close>

definition handleCompleteOrder :: "admin_order \<Rightarrow> world \<Rightarrow> world" where
  "handleCompleteOrder order w0 =
     (case reduce_stocks (order_items order) (w0\<lparr>updatingOrderId := Some (order_id order)\<rparr>) of
        (Inl e, w1) \<Rightarrow> toast_show Complete_failed w1
      | (Inr _, w1) \<Rightarrow>
          (case request (orders_update_status (order_id order) ''delivered'') w1 of
             (Data _, w2) \<Rightarrow> toast_show Completed w2
           | (_, w2) \<Rightarrow> toast_show Complete_failed w2))
     \<lparr>updatingOrderId := None\<rparr>"

text \<open>
  The stock adjustment in the words of the specification, to compare the loop with:
  for one order item, every row of the referenced product gets the stock
  \<open>max 0 (currentStock - quantity)\<close>; for the items of an order, one item after the other.
\<close>

definition spec_decrement_stock :: "order_item_row \<Rightarrow> product_row list \<Rightarrow> product_row list" where
  "spec_decrement_stock item ps =
     map (\<lambda>p. if prod_id p = oi_product_id item
               then p\<lparr>prod_stock := max 0 (prod_stock p - oi_quantity item)\<rparr> else p) ps"

definition spec_decrement_stocks :: "order_item_row list \<Rightarrow> product_row list \<Rightarrow> product_row list" where
  "spec_decrement_stocks its ps = foldl (\<lambda>qs item. spec_decrement_stock item qs) ps its"

subsection \<open>Example data\<close>

text \<open>
  A finite script of replies; past its end the service refuses. \<open>shop rs\<close> is a browser
  that has just opened the shop with the anonymous token \<^verbatim>\<open>tok-1\<close> in its storage, the
  catalogue holding product A (price 10.00, stock 3) and product B (price 5.50, stock 8),
  and the Checkout form in its initial state.
\<close>

definition scripted :: "reply list \<Rightarrow> nat \<Rightarrow> reply" where
  "scripted rs k = (if k < length rs then rs ! k else Refused)"

definition product_A :: product_row where
  "product_A = \<lparr>prod_id = ''A'', prod_name = ''Product A'', prod_price = 10, prod_stock = 3\<rparr>"

definition product_B :: product_row where
  "product_B = \<lparr>prod_id = ''B'', prod_name = ''Product B'', prod_price = 11 / 2, prod_stock = 8\<rparr>"

definition shop :: "reply list \<Rightarrow> world" where
  "shop rs =
     \<lparr>db = \<lparr>tbl_products = [product_A, product_B], tbl_carts = [], tbl_cart_items = [],
             tbl_orders = [], tbl_order_items = []\<rparr>,
      reply_of = scripted rs, calls = 0, user = None,
      cart_session_id = Some ''tok-1'', random_uuid = ''tok-2'',
      items = [], cartId = None, loading = False,
      step = Shipping, processing = False,
      shippingData = \<lparr>fullName = [], address = [], city = [], phone = [], notes_text = []\<rparr>,
      paymentMethod = ''card'',
      cardData = \<lparr>card_number = [], card_expiry = [], card_cvv = [], card_name = []\<rparr>,
      updatingOrderId = None, toasts = []\<rparr>"

text \<open>
  \<open>cart_shop rs\<close>: the user \<^verbatim>\<open>user-1\<close> is signed in, the cart \<^verbatim>\<open>cart-1\<close> holds two of
  product A and one of product B, the local list mirrors it, and the Checkout form has
  reached the confirmation step.
\<close>

definition cart_shop :: "reply list \<Rightarrow> world" where
  "cart_shop rs =
     (shop rs)
     \<lparr>db := \<lparr>tbl_products = [product_A, product_B],
              tbl_carts = [\<lparr>crt_id = ''cart-1'', crt_user_id = Some ''user-1'',
                            crt_session_id = None\<rparr>],
              tbl_cart_items =
                [\<lparr>ci_id = ''item-1'', ci_cart_id = ''cart-1'', ci_product_id = ''A'',
                   ci_quantity = 2\<rparr>,
                 \<lparr>ci_id = ''item-2'', ci_cart_id = ''cart-1'', ci_product_id = ''B'',
                   ci_quantity = 1\<rparr>],
              tbl_orders = [], tbl_order_items = []\<rparr>,
       user := Some ''user-1'',
       items :=
         [\<lparr>item_id = ''item-1'', item_cart_id = ''cart-1'', item_product_id = ''A'',
            item_quantity = 2, item_products = Some product_A\<rparr>,
          \<lparr>item_id = ''item-2'', item_cart_id = ''cart-1'', item_product_id = ''B'',
            item_quantity = 1, item_products = Some product_B\<rparr>],
       cartId := Some ''cart-1'',
       step := Confirmation,
       shippingData := \<lparr>fullName = ''Ana'', address = ''Calle 1'', city = ''Lima'',
                         phone = [], notes_text = []\<rparr>,
       paymentMethod := ''cash''\<rparr>"

text \<open>
  \<open>admin_shop rs\<close>: the pending order \<^verbatim>\<open>order-1\<close> asks for five of product A, whose
  stock is 3; \<open>order_1\<close> is that order as the admin list shows it.
\<close>

definition order_1_item :: order_item_row where
  "order_1_item =
     \<lparr>oi_id = ''oi-1'', oi_order_id = ''order-1'', oi_product_id = ''A'',
      oi_product_name = ''Product A'', oi_product_price = 10, oi_quantity = 5,
      oi_subtotal = 50\<rparr>"

definition order_1 :: admin_order where
  "order_1 = \<lparr>order_id = ''order-1'', order_items = [order_1_item]\<rparr>"

definition admin_shop :: "reply list \<Rightarrow> world" where
  "admin_shop rs =
     (shop rs)
     \<lparr>db := \<lparr>tbl_products = [product_A, product_B], tbl_carts = [], tbl_cart_items = [],
              tbl_orders =
                [\<lparr>ord_id = ''order-1'', ord_user_id = ''user-1'', ord_status = ''pending'',
                   ord_total = 50, ord_shipping_address = ''Calle 1'',
                   ord_shipping_city = ''Lima'', ord_payment_method = ''cash'',
                   ord_notes = None\<rparr>],
              tbl_order_items = [order_1_item]\<rparr>,
       user := Some ''admin-1''\<rparr>"

text \<open>
  \<open>admin_shop_2 rs\<close>: as \<open>admin_shop\<close>, with the further pending order \<^verbatim>\<open>order-2\<close> that
  asks for two of product A, three of product B and five more of product A; \<open>order_2\<close> is
  that order as the admin list shows it.
\<close>

definition order_2_items :: "order_item_row list" where
  "order_2_items =
     [\<lparr>oi_id = ''oi-2'', oi_order_id = ''order-2'', oi_product_id = ''A'',
       oi_product_name = ''Product A'', oi_product_price = 10, oi_quantity = 2,
       oi_subtotal = 20\<rparr>,
      \<lparr>oi_id = ''oi-3'', oi_order_id = ''order-2'', oi_product_id = ''B'',
       oi_product_name = ''Product B'', oi_product_price = 11 / 2, oi_quantity = 3,
       oi_subtotal = 33 / 2\<rparr>,
      \<lparr>oi_id = ''oi-4'', oi_order_id = ''order-2'', oi_product_id = ''A'',
       oi_product_name = ''Product A'', oi_product_price = 10, oi_quantity = 5,
       oi_subtotal = 50\<rparr>]"

definition order_2 :: admin_order where
  "order_2 = \<lparr>order_id = ''order-2'', order_items = order_2_items\<rparr>"

definition admin_shop_2 :: "reply list \<Rightarrow> world" where
  "admin_shop_2 rs =
     (admin_shop rs)
     \<lparr>db := (db (admin_shop rs))
        \<lparr>tbl_orders := tbl_orders (db (admin_shop rs)) @
           [\<lparr>ord_id = ''order-2'', ord_user_id = ''user-1'', ord_status = ''pending'',
              ord_total = 173 / 2, ord_shipping_address = ''Calle 1'',
              ord_shipping_city = ''Lima'', ord_payment_method = ''cash'',
              ord_notes = None\<rparr>],
         tbl_order_items := tbl_order_items (db (admin_shop rs)) @ order_2_items\<rparr>\<rparr>"

section \<open>Properties\<close>

subsection \<open>One request\<close>

lemma request_Accepted:
  "reply_of w (calls w) = Accepted u \<Longrightarrow>
   request q w = (case q u (db w) of
                    None \<Rightarrow> (Error_response, w\<lparr>calls := Suc (calls w)\<rparr>)
                  | Some (a, d) \<Rightarrow> (Data a, w\<lparr>calls := Suc (calls w), db := d\<rparr>))"
  by (simp add: request_def split: option.splits)

lemma request_Refused:
  "reply_of w (calls w) = Refused \<Longrightarrow>
   request q w = (Error_response, w\<lparr>calls := Suc (calls w)\<rparr>)"
  by (simp add: request_def)

lemma request_Thrown:
  "reply_of w (calls w) = Thrown \<Longrightarrow>
   request q w = (Rejected, w\<lparr>calls := Suc (calls w)\<rparr>)"
  by (simp add: request_def)

lemma request_shape:
  "\<exists>d. snd (request q w) = w\<lparr>calls := Suc (calls w), db := d\<rparr>
       \<and> (d = db w \<or> (\<exists>u a. reply_of w (calls w) = Accepted u \<and> q u (db w) = Some (a, d)
                              \<and> fst (request q w) = Data a))"
  by (auto simp: request_def Let_def split: reply.splits option.splits)

lemma request_fields [simp]:
  "calls (snd (request q w)) = Suc (calls w)"
  "reply_of (snd (request q w)) = reply_of w"
  "user (snd (request q w)) = user w"
  "cart_session_id (snd (request q w)) = cart_session_id w"
  "random_uuid (snd (request q w)) = random_uuid w"
  "items (snd (request q w)) = items w"
  "cartId (snd (request q w)) = cartId w"
  "step (snd (request q w)) = step w"
  "shippingData (snd (request q w)) = shippingData w"
  "paymentMethod (snd (request q w)) = paymentMethod w"
  "toasts (snd (request q w)) = toasts w"
  by (simp_all add: request_def Let_def split: reply.splits option.splits)

lemma request_db:
  "db (snd (request q w)) = db w
   \<or> (\<exists>u a d. reply_of w (calls w) = Accepted u
            \<and> q u (db w) = Some (a, d)
            \<and> db (snd (request q w)) = d
            \<and> fst (request q w) = Data a)"
  by (auto simp: request_def Let_def split: reply.splits option.splits)

lemma case_Rejected:
  "(case p of (Rejected, w1) \<Rightarrow> A w1 | (_, w1) \<Rightarrow> B w1) =
     (if fst p = Rejected then A (snd p) else B (snd p))"
  by (auto split: prod.splits response.splits)

lemma case_Data:
  "(case p of (Data x, w1) \<Rightarrow> A x w1 | (_, w1) \<Rightarrow> B w1) =
     (case fst p of Data x \<Rightarrow> A x (snd p) | _ \<Rightarrow> B (snd p))"
  by (auto split: prod.splits response.splits)

subsection \<open>Cart\<close>

text \<open>
  C10. \<^verbatim>\<open>clearCart\<close> with no resolved cart (\<^verbatim>\<open>cartId\<close> is null) is a no-op: the whole world
  is returned as it was, so no request is issued (\<open>calls\<close>), and the stored cart items
  (\<open>db\<close>) and the local list (\<open>items\<close>) are unchanged.
\<close>

theorem clearCart_without_cart_noop:
  "cartId w = None \<Longrightarrow>
     clearCart w = w
     \<and> calls (clearCart w) = calls w
     \<and> tbl_cart_items (db (clearCart w)) = tbl_cart_items (db w)
     \<and> items (clearCart w) = items w"
  by (simp add: clearCart_def)

theorem clearCart_without_cart_noop_witness:
  "cartId (shop []) = None \<and> clearCart (shop []) = shop []"
  using clearCart_without_cart_noop [of "shop []"] by (simp add: shop_def)

text \<open>
  C4. \<^verbatim>\<open>updateQuantity(item, newQty)\<close> with \<open>newQty \<le> 0\<close> is \<^verbatim>\<open>removeItem(item)\<close>: the two
  calls return the same world, whatever the service replies, and when the request is carried
  out the row is deleted from the table and from the local list. With \<open>0 < newQty\<close> and the
  request carried out, the quantity of the row and of the local item is exactly \<open>newQty\<close>,
  whatever it was before, and nothing else in the table or the list changes.
\<close>

theorem updateQuantity_removes_or_sets:
  "(quantity \<le> 0 \<longrightarrow> updateQuantity itemId quantity w = removeItem itemId w)
   \<and> (quantity \<le> 0 \<and> reply_of w (calls w) = Accepted u \<longrightarrow>
        tbl_cart_items (db (updateQuantity itemId quantity w)) =
          filter (\<lambda>r. ci_id r \<noteq> itemId) (tbl_cart_items (db w))
        \<and> items (updateQuantity itemId quantity w) =
          filter (\<lambda>item. item_id item \<noteq> itemId) (items w))
   \<and> (0 < quantity \<and> reply_of w (calls w) = Accepted u \<longrightarrow>
        tbl_cart_items (db (updateQuantity itemId quantity w)) =
          map (\<lambda>r. if ci_id r = itemId then r\<lparr>ci_quantity := quantity\<rparr> else r)
            (tbl_cart_items (db w))
        \<and> items (updateQuantity itemId quantity w) =
          map (\<lambda>item. if item_id item = itemId then item\<lparr>item_quantity := quantity\<rparr> else item)
            (items w))"
  by (simp add: updateQuantity_def removeItem_def request_Accepted cart_items_delete_id_def
        cart_items_update_quantity_def toast_show_def)

theorem updateQuantity_removes_or_sets_witness:
  "(0::int) \<le> 0 \<and> (0::int) < 5
   \<and> reply_of (cart_shop [Accepted ''q'']) (calls (cart_shop [Accepted ''q''])) = Accepted ''q''
   \<and> updateQuantity ''item-1'' 0 (cart_shop [Accepted ''q''])
        = removeItem ''item-1'' (cart_shop [Accepted ''q''])
   \<and> map ci_id (tbl_cart_items (db (updateQuantity ''item-1'' 0 (cart_shop [Accepted ''q'']))))
        = [''item-2'']
   \<and> map ci_quantity (tbl_cart_items (db (updateQuantity ''item-1'' 5 (cart_shop [Accepted ''q'']))))
        = [5, 1]
   \<and> map item_quantity (items (updateQuantity ''item-1'' 5 (cart_shop [Accepted ''q'']))) = [5, 1]"
proof -
  let ?W = "cart_shop [Accepted ''q'']"
  have r: "reply_of ?W (calls ?W) = Accepted ''q''"
    by (simp add: cart_shop_def shop_def scripted_def)
  have rows: "tbl_cart_items (db ?W) =
     [\<lparr>ci_id = ''item-1'', ci_cart_id = ''cart-1'', ci_product_id = ''A'', ci_quantity = 2\<rparr>,
      \<lparr>ci_id = ''item-2'', ci_cart_id = ''cart-1'', ci_product_id = ''B'', ci_quantity = 1\<rparr>]"
    by (simp add: cart_shop_def shop_def)
  note t0 = updateQuantity_removes_or_sets [of 0 "''item-1''" ?W "''q''"]
  note t5 = updateQuantity_removes_or_sets [of 5 "''item-1''" ?W "''q''"]
  from t0 have a: "updateQuantity ''item-1'' 0 ?W = removeItem ''item-1'' ?W" by simp
  from t0 r have b: "tbl_cart_items (db (updateQuantity ''item-1'' 0 ?W)) =
      filter (\<lambda>r. ci_id r \<noteq> ''item-1'') (tbl_cart_items (db ?W))" by blast
  from t5 r have c: "tbl_cart_items (db (updateQuantity ''item-1'' 5 ?W)) =
      map (\<lambda>r. if ci_id r = ''item-1'' then r\<lparr>ci_quantity := 5\<rparr> else r) (tbl_cart_items (db ?W))"
    and d: "items (updateQuantity ''item-1'' 5 ?W) =
      map (\<lambda>item. if item_id item = ''item-1'' then item\<lparr>item_quantity := 5\<rparr> else item)
        (items ?W)"
    by simp_all
  have b': "map ci_id (tbl_cart_items (db (updateQuantity ''item-1'' 0 ?W))) = [''item-2'']"
    unfolding b rows by simp
  have c': "map ci_quantity (tbl_cart_items (db (updateQuantity ''item-1'' 5 ?W))) = [5, 1]"
    unfolding c rows by simp
  have d': "map item_quantity (items (updateQuantity ''item-1'' 5 ?W)) = [5, 1]"
    unfolding d by (simp add: cart_shop_def shop_def)
  show ?thesis using r a b' c' d' by simp
qed

text \<open>
  Without the proviso neither the deletion nor the new quantity is stored. In \<open>cart_shop\<close>
  the row \<^verbatim>\<open>item-1\<close> has quantity 2. When the promise of the request is rejected,
  \<^verbatim>\<open>updateQuantity\<close> with 5 leaves the stored and the local quantity at 2 and reports
  \<open>Update_failed\<close>, and \<^verbatim>\<open>updateQuantity\<close> with 0 keeps the row and reports
  \<open>Remove_failed\<close>. When the request resolves to an error, the stored rows are kept as
  well, while the local list shows the quantity 5, or the item removed.
\<close>

theorem updateQuantity_request_not_carried_out:
  "map (\<lambda>r. (ci_id r, ci_quantity r)) (tbl_cart_items (db (cart_shop [Thrown])))
     = [(''item-1'', 2), (''item-2'', 1)]
   \<and> map (\<lambda>r. (ci_id r, ci_quantity r))
        (tbl_cart_items (db (updateQuantity ''item-1'' 5 (cart_shop [Thrown]))))
     = [(''item-1'', 2), (''item-2'', 1)]
   \<and> map item_quantity (items (updateQuantity ''item-1'' 5 (cart_shop [Thrown]))) = [2, 1]
   \<and> toasts (updateQuantity ''item-1'' 5 (cart_shop [Thrown])) = [Update_failed]
   \<and> map (\<lambda>r. (ci_id r, ci_quantity r))
        (tbl_cart_items (db (updateQuantity ''item-1'' 0 (cart_shop [Thrown]))))
     = [(''item-1'', 2), (''item-2'', 1)]
   \<and> toasts (updateQuantity ''item-1'' 0 (cart_shop [Thrown])) = [Remove_failed]
   \<and> map (\<lambda>r. (ci_id r, ci_quantity r))
        (tbl_cart_items (db (updateQuantity ''item-1'' 5 (cart_shop [Refused]))))
     = [(''item-1'', 2), (''item-2'', 1)]
   \<and> map item_quantity (items (updateQuantity ''item-1'' 5 (cart_shop [Refused]))) = [5, 1]
   \<and> map (\<lambda>r. (ci_id r, ci_quantity r))
        (tbl_cart_items (db (updateQuantity ''item-1'' 0 (cart_shop [Refused]))))
     = [(''item-1'', 2), (''item-2'', 1)]
   \<and> map item_id (items (updateQuantity ''item-1'' 0 (cart_shop [Refused]))) = [''item-2'']"
  by code_simp

text \<open>\<^verbatim>\<open>getOrCreateCart\<close> when its lookup is carried out.\<close>

lemma getSessionId_fields [simp]:
  "db (snd (getSessionId w)) = db w"
  "calls (snd (getSessionId w)) = calls w"
  "reply_of (snd (getSessionId w)) = reply_of w"
  "user (snd (getSessionId w)) = user w"
  "random_uuid (snd (getSessionId w)) = random_uuid w"
  "items (snd (getSessionId w)) = items w"
  "cartId (snd (getSessionId w)) = cartId w"
  by (simp_all add: getSessionId_def split: option.splits)















text \<open>The rows of \<^verbatim>\<open>cart_items\<close> under the cart operations.\<close>

lemma one_row_cong:
  "tbl_cart_items d' = tbl_cart_items d \<Longrightarrow> one_row_per_product d' = one_row_per_product d"
  by (simp add: one_row_per_product_def)

lemma request_preserves:
  assumes "\<And>u a d'. q u (db w) = Some (a, d') \<Longrightarrow> P d'" and "P (db w)"
  shows "P (db (snd (request q w)))"
  using request_db [of q w] assms by auto

lemma delete_id_one_row:
  "cart_items_delete_id i u d = Some (a, d') \<Longrightarrow> one_row_per_product d
   \<Longrightarrow> one_row_per_product d'"
  by (auto simp: cart_items_delete_id_def one_row_per_product_def distinct_map_filter)

lemma update_quantity_keys:
  "map ((\<lambda>r. (ci_cart_id r, ci_product_id r))
          \<circ> (\<lambda>r. if ci_id r = i then r\<lparr>ci_quantity := q\<rparr> else r)) rows
     = map (\<lambda>r. (ci_cart_id r, ci_product_id r)) rows"
  by (induction rows) simp_all

lemma update_quantity_one_row:
  "cart_items_update_quantity i q u d = Some (a, d') \<Longrightarrow> one_row_per_product d
   \<Longrightarrow> one_row_per_product d'"
  by (auto simp: cart_items_update_quantity_def one_row_per_product_def update_quantity_keys
           split: if_splits)

lemma insert_one_row:
  "cart_items_insert cid pid q u d = Some (a, d') \<Longrightarrow> one_row_per_product d
   \<Longrightarrow> one_row_per_product d'"
  by (auto simp: cart_items_insert_def one_row_per_product_def split: if_splits)

lemma removeItem_db:
  "db (removeItem i w) = db (snd (request (cart_items_delete_id i) w))"
  by (simp add: removeItem_def case_Rejected toast_show_def)

lemma updateQuantity_db:
  "db (updateQuantity i q w) =
     (if q \<le> 0 then db (removeItem i w)
      else db (snd (request (cart_items_update_quantity i q) w)))"
  by (simp add: updateQuantity_def case_Rejected toast_show_def)

lemma updateQuantity_one_row:
  "one_row_per_product (db w) \<Longrightarrow> one_row_per_product (db (updateQuantity i q w))"
  by (auto simp: updateQuantity_db removeItem_db
           intro: request_preserves delete_id_one_row update_quantity_one_row)

lemma carts_select_db:
  "db (snd (request (carts_select_id_maybeSingle flt) w)) = db w"
  by (simp add: request_def Let_def carts_select_id_maybeSingle_def
           split: reply.splits list.splits)

lemma carts_insert_cart_items:
  "tbl_cart_items (db (snd (request (carts_insert a b) w))) = tbl_cart_items (db w)"
  by (simp add: request_def Let_def carts_insert_def split: reply.splits)

lemma cart_items_select_db:
  "db (snd (request (cart_items_select cid) w)) = db w"
  by (simp add: request_def Let_def cart_items_select_def split: reply.splits)

lemma getOrCreateCart_frame:
  "tbl_cart_items (db (snd (getOrCreateCart w))) = tbl_cart_items (db w)
   \<and> items (snd (getOrCreateCart w)) = items w"
proof -
  obtain sid wa where g: "getSessionId w = (sid, wa)" by force
  then have wa: "wa = snd (getSessionId w)" by simp
  let ?sel = "carts_select_id_maybeSingle (owner_filter (user wa) sid)"
  let ?ins = "carts_insert (user wa) (case user wa of Some uid \<Rightarrow> None | None \<Rightarrow> Some sid)"
  obtain r w1 where s: "request ?sel wa = (r, w1)" by force
  then have w1: "w1 = snd (request ?sel wa)" by simp
  obtain r2 w2 where i: "request ?ins w1 = (r2, w2)" by force
  then have w2: "w2 = snd (request ?ins w1)" by simp
  have f1: "tbl_cart_items (db w1) = tbl_cart_items (db w) \<and> items w1 = items w"
    unfolding w1 by (simp add: carts_select_db wa)
  have f2: "tbl_cart_items (db w2) = tbl_cart_items (db w) \<and> items w2 = items w"
    unfolding w2 using f1 by (simp add: carts_insert_cart_items)
  have "snd (getOrCreateCart w) = w1 \<or> snd (getOrCreateCart w) = w2"
  proof (cases r)
    case (Data e)
    show ?thesis
    proof (cases e)
      case None
      with Data show ?thesis
        by (cases r2) (simp_all add: getOrCreateCart_def g s i)
    next
      case (Some cid)
      with Data show ?thesis
        by (simp add: getOrCreateCart_def g s)
    qed
  next
    case Error_response
    then show ?thesis
      by (cases r2) (simp_all add: getOrCreateCart_def g s i)
  next
    case Rejected
    then show ?thesis
      by (simp add: getOrCreateCart_def g s)
  qed
  with f1 f2 show ?thesis by auto
qed

lemma refreshCart_cart_items:
  "tbl_cart_items (db (refreshCart w)) = tbl_cart_items (db w)"
proof -
  obtain r w1 where g: "getOrCreateCart (w\<lparr>loading := True\<rparr>) = (r, w1)" by force
  then have "w1 = snd (getOrCreateCart (w\<lparr>loading := True\<rparr>))" by simp
  then have f1: "tbl_cart_items (db w1) = tbl_cart_items (db w)"
    using getOrCreateCart_frame [of "w\<lparr>loading := True\<rparr>"] by simp
  show ?thesis
  proof (cases r)
    case (Inl e)
    with g f1 show ?thesis by (simp add: refreshCart_def)
  next
    case (Inr cid)
    obtain r2 w2 where s: "request (cart_items_select cid) (w1\<lparr>cartId := Some cid\<rparr>) = (r2, w2)"
      by force
    then have "w2 = snd (request (cart_items_select cid) (w1\<lparr>cartId := Some cid\<rparr>))" by simp
    then have "db w2 = db w1" by (simp add: cart_items_select_db)
    with g Inr s f1 show ?thesis
      by (simp add: refreshCart_def split: response.splits)
  qed
qed


lemma addItem_one_row:
  assumes P: "one_row_per_product (db w)"
  shows "one_row_per_product (db (addItem product quantity w))"
proof -
  obtain r w1 where g:
    "(case cartId w of
        Some c \<Rightarrow> if c \<noteq> [] then (Inr c, w) else getOrCreateCart w
      | None \<Rightarrow> getOrCreateCart w) = (r, w1)"
    by force
  have "w1 = w \<or> w1 = snd (getOrCreateCart w)"
    using g by (auto split: option.splits if_splits)
  then have "tbl_cart_items (db w1) = tbl_cart_items (db w)"
    using getOrCreateCart_frame [of w] by auto
  with P have P1: "one_row_per_product (db w1)"
    by (simp add: one_row_per_product_def)
  show ?thesis
  proof (cases r)
    case (Inl e)
    with P1 show ?thesis by (simp add: addItem_def g toast_show_def)
  next
    case (Inr cid)
    show ?thesis
    proof (cases "find (\<lambda>item. item_product_id item = prod_id product) (items w1)")
      case (Some existing)
      with Inr updateQuantity_one_row [OF P1] show ?thesis
        by (simp add: addItem_def g toast_show_def)
    next
      case None
      obtain r2 w2 where i: "request (cart_items_insert cid (prod_id product) quantity) w1 = (r2, w2)"
        by force
      then have w2: "w2 = snd (request (cart_items_insert cid (prod_id product) quantity) w1)"
        by simp
      have P2: "one_row_per_product (db w2)"
        unfolding w2 using P1 by (auto intro: request_preserves insert_one_row)
      then have "one_row_per_product (db (refreshCart w2))"
        using refreshCart_cart_items [of w2] by (simp add: one_row_per_product_def)
      with P2 Inr None i show ?thesis
        by (cases r2) (simp_all add: addItem_def g toast_show_def)
    qed
  qed
qed

lemma addItem_existing:
  assumes cart: "cartId w = Some c" and c: "c \<noteq> []"
    and found: "find (\<lambda>item. item_product_id item = prod_id product) (items w) = Some existing"
    and pos: "0 < item_quantity existing + quantity"
    and acc: "reply_of w (calls w) = Accepted u"
  shows "tbl_cart_items (db (addItem product quantity w)) =
           map (\<lambda>r. if ci_id r = item_id existing
                     then r\<lparr>ci_quantity := item_quantity existing + quantity\<rparr> else r)
             (tbl_cart_items (db w))"
  using assms
  by (simp add: addItem_def updateQuantity_def request_Accepted cart_items_update_quantity_def
        toast_show_def)

text \<open>
  C3. At most one cart item per (cart, product): whatever the service replies, \<^verbatim>\<open>addItem\<close>
  keeps the (cart, product) pairs of the table distinct. When the product is already in the
  cart (the local list has an item for it, showing the stored quantity) and the request is
  carried out, \<^verbatim>\<open>addItem\<close> adds \<open>qty\<close> to the quantity of that row and the table keeps
  its length: no second row is inserted. The anonymous visitor \<^verbatim>\<open>tok-1\<close> who adds product
  A with quantity 1 and then A again with quantity 2 ends with the single row of quantity 3.
\<close>

theorem addItem_one_row_per_product:
  "(one_row_per_product (db w) \<longrightarrow> one_row_per_product (db (addItem product quantity w)))
   \<and> (cartId w = Some c \<and> c \<noteq> []
        \<and> find (\<lambda>item. item_product_id item = prod_id product) (items w) = Some existing
        \<and> (\<forall>r \<in> set (tbl_cart_items (db w)).
              ci_id r = item_id existing \<longrightarrow> ci_quantity r = item_quantity existing)
        \<and> 0 < item_quantity existing + quantity
        \<and> reply_of w (calls w) = Accepted u
      \<longrightarrow> tbl_cart_items (db (addItem product quantity w)) =
            map (\<lambda>r. if ci_id r = item_id existing
                      then r\<lparr>ci_quantity := ci_quantity r + quantity\<rparr> else r)
              (tbl_cart_items (db w))
          \<and> length (tbl_cart_items (db (addItem product quantity w)))
              = length (tbl_cart_items (db w)))
   \<and> tbl_cart_items (db (addItem product_A 2 (addItem product_A 1
        (shop [Accepted ''q'', Accepted ''cart-1'', Accepted ''item-1'', Accepted ''q'',
               Accepted ''q'', Accepted ''q'']))))
      = [\<lparr>ci_id = ''item-1'', ci_cart_id = ''cart-1'', ci_product_id = ''A'', ci_quantity = 3\<rparr>]"
proof (intro conjI impI)
  assume "one_row_per_product (db w)"
  then show "one_row_per_product (db (addItem product quantity w))"
    by (rule addItem_one_row)
next
  assume h: "cartId w = Some c \<and> c \<noteq> []
        \<and> find (\<lambda>item. item_product_id item = prod_id product) (items w) = Some existing
        \<and> (\<forall>r \<in> set (tbl_cart_items (db w)).
              ci_id r = item_id existing \<longrightarrow> ci_quantity r = item_quantity existing)
        \<and> 0 < item_quantity existing + quantity
        \<and> reply_of w (calls w) = Accepted u"
  then have sync: "\<And>r. r \<in> set (tbl_cart_items (db w)) \<Longrightarrow> ci_id r = item_id existing
                     \<Longrightarrow> ci_quantity r = item_quantity existing"
    by blast
  from h have "tbl_cart_items (db (addItem product quantity w)) =
           map (\<lambda>r. if ci_id r = item_id existing
                     then r\<lparr>ci_quantity := item_quantity existing + quantity\<rparr> else r)
             (tbl_cart_items (db w))"
    using addItem_existing [of w c product existing quantity u] by blast
  also have "\<dots> = map (\<lambda>r. if ci_id r = item_id existing
                      then r\<lparr>ci_quantity := ci_quantity r + quantity\<rparr> else r)
              (tbl_cart_items (db w))"
    by (rule map_cong) (auto simp: sync)
  finally show rows: "tbl_cart_items (db (addItem product quantity w)) =
            map (\<lambda>r. if ci_id r = item_id existing
                      then r\<lparr>ci_quantity := ci_quantity r + quantity\<rparr> else r)
              (tbl_cart_items (db w))" .
  show "length (tbl_cart_items (db (addItem product quantity w)))
              = length (tbl_cart_items (db w))"
    unfolding rows by simp
next
  show "tbl_cart_items (db (addItem product_A 2 (addItem product_A 1
        (shop [Accepted ''q'', Accepted ''cart-1'', Accepted ''item-1'', Accepted ''q'',
               Accepted ''q'', Accepted ''q'']))))
      = [\<lparr>ci_id = ''item-1'', ci_cart_id = ''cart-1'', ci_product_id = ''A'', ci_quantity = 3\<rparr>]"
    by code_simp
qed

theorem addItem_one_row_per_product_witness:
  "one_row_per_product (db (addItem product_A 1
      (shop [Accepted ''q'', Accepted ''cart-1'', Accepted ''item-1'', Accepted ''q'',
             Accepted ''q'', Accepted ''q''])))
   \<and> cartId (addItem product_A 1
      (shop [Accepted ''q'', Accepted ''cart-1'', Accepted ''item-1'', Accepted ''q'',
             Accepted ''q'', Accepted ''q''])) = Some ''cart-1''
   \<and> map (\<lambda>item. (item_id item, item_product_id item, item_quantity item))
        (items (addItem product_A 1
          (shop [Accepted ''q'', Accepted ''cart-1'', Accepted ''item-1'', Accepted ''q'',
                 Accepted ''q'', Accepted ''q''])))
      = [(''item-1'', ''A'', 1)]
   \<and> map (\<lambda>r. (ci_id r, ci_quantity r)) (tbl_cart_items (db (addItem product_A 1
          (shop [Accepted ''q'', Accepted ''cart-1'', Accepted ''item-1'', Accepted ''q'',
                 Accepted ''q'', Accepted ''q'']))))
      = [(''item-1'', 1)]
   \<and> one_row_per_product (db (addItem product_A 2 (addItem product_A 1
      (shop [Accepted ''q'', Accepted ''cart-1'', Accepted ''item-1'', Accepted ''q'',
             Accepted ''q'', Accepted ''q'']))))
   \<and> map (\<lambda>r. (ci_id r, ci_quantity r)) (tbl_cart_items (db (addItem product_A 2
        (addItem product_A 1
          (shop [Accepted ''q'', Accepted ''cart-1'', Accepted ''item-1'', Accepted ''q'',
                 Accepted ''q'', Accepted ''q''])))))
      = [(''item-1'', 3)]"
proof -
  let ?W = "addItem product_A 1
      (shop [Accepted ''q'', Accepted ''cart-1'', Accepted ''item-1'', Accepted ''q'',
             Accepted ''q'', Accepted ''q''])"
  let ?E = "\<lparr>item_id = ''item-1'', item_cart_id = ''cart-1'', item_product_id = ''A'',
            item_quantity = 1, item_products = Some product_A\<rparr>"
  have cart: "cartId ?W = Some ''cart-1''" by code_simp
  have its: "items ?W = [?E]" by code_simp
  have rows: "tbl_cart_items (db ?W) =
     [\<lparr>ci_id = ''item-1'', ci_cart_id = ''cart-1'', ci_product_id = ''A'', ci_quantity = 1\<rparr>]"
    by code_simp
  have acc: "reply_of ?W (calls ?W) = Accepted ''q''" by code_simp
  have one: "one_row_per_product (db ?W)"
    by (simp add: one_row_per_product_def rows)
  have found: "find (\<lambda>item. item_product_id item = prod_id product_A) (items ?W) = Some ?E"
    unfolding its by (simp add: product_A_def)
  have sync: "\<forall>r \<in> set (tbl_cart_items (db ?W)).
                ci_id r = item_id ?E \<longrightarrow> ci_quantity r = item_quantity ?E"
    unfolding rows by simp
  have pos: "0 < item_quantity ?E + 2" by simp
  have c: "''cart-1'' \<noteq> []" by simp
  note t = addItem_one_row_per_product [of ?W product_A 2 "''cart-1''" ?E "''q''"]
  from t one have one': "one_row_per_product (db (addItem product_A 2 ?W))" by blast
  from t cart c found sync pos acc
  have after: "tbl_cart_items (db (addItem product_A 2 ?W)) =
            map (\<lambda>r. if ci_id r = item_id ?E
                      then r\<lparr>ci_quantity := ci_quantity r + 2\<rparr> else r)
              (tbl_cart_items (db ?W))"
    by blast
  have a: "map (\<lambda>item. (item_id item, item_product_id item, item_quantity item)) (items ?W)
             = [(''item-1'', ''A'', 1)]"
    unfolding its by simp
  have b: "map (\<lambda>r. (ci_id r, ci_quantity r)) (tbl_cart_items (db ?W)) = [(''item-1'', 1)]"
    unfolding rows by simp
  have d: "map (\<lambda>r. (ci_id r, ci_quantity r)) (tbl_cart_items (db (addItem product_A 2 ?W)))
             = [(''item-1'', 3)]"
    unfolding after rows by simp
  from one cart a b one' d show ?thesis by blast
qed

text \<open>
  Without the provisos the quantities do not add. The visitor \<^verbatim>\<open>tok-1\<close> adds product A
  with quantity 1 and then A again with quantity 2. When the promise of the update is
  rejected, the row keeps the quantity 1 and \<^verbatim>\<open>updateQuantity\<close> reports
  \<open>Update_failed\<close>. When the reload after the first insert fails, the local list stays
  empty, so the second \<^verbatim>\<open>addItem\<close> finds no item for A and sends an insert, which the
  constraint \<^verbatim>\<open>UNIQUE (cart_id, product_id)\<close> refuses: the single row keeps the quantity
  1. When the update resolves to an error, the row keeps the quantity 1 as well. In
  \<open>cart_shop\<close> the row for A has quantity 2; once the local list shows 5 for it, adding one
  more of A stores 6, the local quantity plus one; and adding \<open>- 2\<close> of A removes the row.
\<close>

theorem addItem_twice_quantity_not_added:
  "map (\<lambda>r. (ci_id r, ci_product_id r, ci_quantity r))
      (tbl_cart_items (db (addItem product_A 2 (addItem product_A 1
        (shop [Accepted ''q'', Accepted ''cart-1'', Accepted ''item-1'', Accepted ''q'',
               Accepted ''q'', Thrown])))))
     = [(''item-1'', ''A'', 1)]
   \<and> toasts (addItem product_A 2 (addItem product_A 1
        (shop [Accepted ''q'', Accepted ''cart-1'', Accepted ''item-1'', Accepted ''q'',
               Accepted ''q'', Thrown])))
     = [Added, Update_failed, Added]
   \<and> items (addItem product_A 1
        (shop [Accepted ''q'', Accepted ''cart-1'', Accepted ''item-1'', Accepted ''q'',
               Thrown, Accepted ''item-2'', Accepted ''q'', Accepted ''q'']))
     = []
   \<and> map (\<lambda>r. (ci_id r, ci_product_id r, ci_quantity r))
      (tbl_cart_items (db (addItem product_A 2 (addItem product_A 1
        (shop [Accepted ''q'', Accepted ''cart-1'', Accepted ''item-1'', Accepted ''q'',
               Thrown, Accepted ''item-2'', Accepted ''q'', Accepted ''q''])))))
     = [(''item-1'', ''A'', 1)]
   \<and> map (\<lambda>r. (ci_id r, ci_product_id r, ci_quantity r))
      (tbl_cart_items (db (addItem product_A 2 (addItem product_A 1
        (shop [Accepted ''q'', Accepted ''cart-1'', Accepted ''item-1'', Accepted ''q'',
               Refused, Accepted ''item-2'', Accepted ''q'', Accepted ''q''])))))
     = [(''item-1'', ''A'', 1)]
   \<and> map (\<lambda>r. (ci_id r, ci_product_id r, ci_quantity r))
      (tbl_cart_items (db (addItem product_A 2 (addItem product_A 1
        (shop [Accepted ''q'', Accepted ''cart-1'', Accepted ''item-1'', Accepted ''q'',
               Accepted ''q'', Refused])))))
     = [(''item-1'', ''A'', 1)]
   \<and> map (\<lambda>r. (ci_id r, ci_product_id r, ci_quantity r))
      (tbl_cart_items (db (updateQuantity ''item-1'' 5 (cart_shop [Refused, Accepted ''q'']))))
     = [(''item-1'', ''A'', 2), (''item-2'', ''B'', 1)]
   \<and> map item_quantity (items (updateQuantity ''item-1'' 5 (cart_shop [Refused, Accepted ''q''])))
     = [5, 1]
   \<and> map (\<lambda>r. (ci_id r, ci_product_id r, ci_quantity r))
      (tbl_cart_items (db (addItem product_A 1
        (updateQuantity ''item-1'' 5 (cart_shop [Refused, Accepted ''q''])))))
     = [(''item-1'', ''A'', 6), (''item-2'', ''B'', 1)]
   \<and> map (\<lambda>r. (ci_id r, ci_product_id r, ci_quantity r))
      (tbl_cart_items (db (addItem product_A (- 2) (cart_shop [Accepted ''q'']))))
     = [(''item-2'', ''B'', 1)]"
  by code_simp

text \<open>
  C9. \<^verbatim>\<open>addItem\<close> does not read the \<^verbatim>\<open>error\<close> of its insert. A visitor with an empty
  cart adds product A; the cart is found or created, the insert of the cart item resolves to
  an error, the cart is reloaded, and \<^verbatim>\<open>addItem\<close> reports success: the notice is
  \<open>Added\<close> and no error is surfaced, while the table and the local list hold no row.
  Only a rejected promise reaches the \<^verbatim>\<open>catch\<close> that reports \<open>Add_failed\<close>.
\<close>

theorem addItem_refused_insert_reports_success:
  "tbl_cart_items (db (addItem product_A 1
      (shop [Accepted ''q'', Accepted ''cart-1'', Refused, Accepted ''q'', Accepted ''q''])))
     = []
   \<and> items (addItem product_A 1
      (shop [Accepted ''q'', Accepted ''cart-1'', Refused, Accepted ''q'', Accepted ''q''])) = []
   \<and> toasts (addItem product_A 1
      (shop [Accepted ''q'', Accepted ''cart-1'', Refused, Accepted ''q'', Accepted ''q'']))
     = [Added]"
  by code_simp

subsection \<open>Checkout\<close>

text \<open>
  C7. A shipping step submitted with \<^verbatim>\<open>fullName\<close>, \<^verbatim>\<open>address\<close> or \<^verbatim>\<open>city\<close> blank (the empty
  string, which is what the handler tests) is rejected: the only change to the world is
  the error notice, so the step stays where it was (\<^verbatim>\<open>shipping\<close>), no request is issued
  and the database is untouched.
\<close>

theorem shipping_submit_blank_rejected:
  "fullName (shippingData w) = [] \<or> address (shippingData w) = []
     \<or> city (shippingData w) = [] \<Longrightarrow>
     handleShippingSubmit w = w\<lparr>toasts := toasts w @ [Required_fields]\<rparr>
     \<and> step (handleShippingSubmit w) = step w
     \<and> calls (handleShippingSubmit w) = calls w
     \<and> db (handleShippingSubmit w) = db w"
  by (simp add: handleShippingSubmit_def toast_show_def)

theorem shipping_submit_blank_rejected_witness:
  "address (shippingData ((shop [])\<lparr>shippingData :=
       \<lparr>fullName = ''Ana'', address = [], city = ''Lima'', phone = [], notes_text = []\<rparr>\<rparr>)) = []
   \<and> step (handleShippingSubmit ((shop [])\<lparr>shippingData :=
       \<lparr>fullName = ''Ana'', address = [], city = ''Lima'', phone = [], notes_text = []\<rparr>\<rparr>))
       = Shipping
   \<and> toasts (handleShippingSubmit ((shop [])\<lparr>shippingData :=
       \<lparr>fullName = ''Ana'', address = [], city = ''Lima'', phone = [], notes_text = []\<rparr>\<rparr>))
       = [Required_fields]
   \<and> calls (handleShippingSubmit ((shop [])\<lparr>shippingData :=
       \<lparr>fullName = ''Ana'', address = [], city = ''Lima'', phone = [], notes_text = []\<rparr>\<rparr>))
       = 0"
  using shipping_submit_blank_rejected [of "(shop [])\<lparr>shippingData :=
       \<lparr>fullName = ''Ana'', address = [], city = ''Lima'', phone = [], notes_text = []\<rparr>\<rparr>"]
  by (simp add: shop_def)

text \<open>The order items that \<^verbatim>\<open>processOrder\<close> creates.\<close>

lemma foldl_sum:
  "foldl (\<lambda>s x. s + f x) a xs = a + sum_list (map f xs)" for a :: rat
  by (induction xs arbitrary: a) (simp_all add: add.assoc)

lemma price_else_0_eq: "price_else_0 item = price_or_0 item"
  by (simp add: price_else_0_def price_or_0_def split: option.splits)

lemma total_cart_sum:
  "total_cart its = sum_list (map (\<lambda>item. oi_subtotal (order_item_of oid item)) its)"
  by (simp add: total_cart_def foldl_sum order_item_of_def price_else_0_eq)

lemma order_items_insert_db:
  "db (snd (request (order_items_insert r) w)) = db w
   \<or> (\<exists>u. reply_of w (calls w) = Accepted u
          \<and> db (snd (request (order_items_insert r) w)) =
              (db w)\<lparr>tbl_order_items := tbl_order_items (db w) @ [r\<lparr>oi_id := u\<rparr>]\<rparr>)"
  using request_db [of "order_items_insert r" w]
  by (auto simp: order_items_insert_def)

lemma insert_order_items_Cons:
  "insert_order_items oid (item # rest) w =
     (if fst (request (order_items_insert (order_item_of oid item)) w) = Rejected
      then (Inl Exn, snd (request (order_items_insert (order_item_of oid item)) w))
      else insert_order_items oid rest
             (snd (request (order_items_insert (order_item_of oid item)) w)))"
  by (cases "request (order_items_insert (order_item_of oid item)) w")
     (auto split: response.splits)

lemma insert_order_items_fields:
  "reply_of (snd (insert_order_items oid its w)) = reply_of w
   \<and> user (snd (insert_order_items oid its w)) = user w
   \<and> items (snd (insert_order_items oid its w)) = items w
   \<and> cartId (snd (insert_order_items oid its w)) = cartId w
   \<and> step (snd (insert_order_items oid its w)) = step w
   \<and> toasts (snd (insert_order_items oid its w)) = toasts w
   \<and> tbl_orders (db (snd (insert_order_items oid its w))) = tbl_orders (db w)
   \<and> tbl_cart_items (db (snd (insert_order_items oid its w))) = tbl_cart_items (db w)"
proof (induction its arbitrary: w)
  case Nil
  show ?case by simp
next
  case (Cons item rest)
  let ?w1 = "snd (request (order_items_insert (order_item_of oid item)) w)"
  have tbl: "tbl_orders (db ?w1) = tbl_orders (db w)
             \<and> tbl_cart_items (db ?w1) = tbl_cart_items (db w)"
    using order_items_insert_db [of "order_item_of oid item" w] by auto
  show ?case
    using Cons.IH [of ?w1] tbl
    by (simp add: insert_order_items_Cons del: insert_order_items.simps)
qed

lemma insert_order_items_calls:
  "fst (insert_order_items oid its w) = Inr () \<Longrightarrow>
   calls (snd (insert_order_items oid its w)) = calls w + length its"
proof (induction its arbitrary: w)
  case Nil
  show ?case by simp
next
  case (Cons item rest)
  let ?w1 = "snd (request (order_items_insert (order_item_of oid item)) w)"
  from Cons.prems have nr: "fst (request (order_items_insert (order_item_of oid item)) w) \<noteq> Rejected"
    by (auto simp: insert_order_items_Cons simp del: insert_order_items.simps split: if_splits)
  with Cons.prems have "fst (insert_order_items oid rest ?w1) = Inr ()"
    by (simp add: insert_order_items_Cons del: insert_order_items.simps)
  from Cons.IH [OF this] nr show ?case
    by (simp add: insert_order_items_Cons del: insert_order_items.simps)
qed

lemma insert_order_items_rows:
  "\<exists>rows. tbl_order_items (db (snd (insert_order_items oid its w))) =
            tbl_order_items (db w) @ rows
        \<and> (\<forall>r \<in> set rows. \<exists>item u. r = (order_item_of oid item)\<lparr>oi_id := u\<rparr>)"
proof (induction its arbitrary: w)
  case Nil
  show ?case by simp
next
  case (Cons item rest)
  let ?w1 = "snd (request (order_items_insert (order_item_of oid item)) w)"
  have "\<exists>rows0. tbl_order_items (db ?w1) = tbl_order_items (db w) @ rows0
          \<and> (\<forall>r \<in> set rows0. \<exists>item u. r = (order_item_of oid item)\<lparr>oi_id := u\<rparr>)"
  proof -
    from order_items_insert_db [of "order_item_of oid item" w]
    show ?thesis
    proof
      assume "db ?w1 = db w"
      then show ?thesis by (intro exI [of _ "[]"]) simp
    next
      assume "\<exists>u. reply_of w (calls w) = Accepted u \<and> db ?w1 =
              (db w)\<lparr>tbl_order_items := tbl_order_items (db w) @ [(order_item_of oid item)\<lparr>oi_id := u\<rparr>]\<rparr>"
      then obtain u where "db ?w1 =
              (db w)\<lparr>tbl_order_items := tbl_order_items (db w) @ [(order_item_of oid item)\<lparr>oi_id := u\<rparr>]\<rparr>"
        by blast
      then show ?thesis
        by (intro exI [of _ "[(order_item_of oid item)\<lparr>oi_id := u\<rparr>]"]) auto
    qed
  qed
  then obtain rows0 where r0: "tbl_order_items (db ?w1) = tbl_order_items (db w) @ rows0"
    and ok0: "\<forall>r \<in> set rows0. \<exists>item u. r = (order_item_of oid item)\<lparr>oi_id := u\<rparr>"
    by blast
  from Cons.IH [of ?w1] obtain rows where
    r: "tbl_order_items (db (snd (insert_order_items oid rest ?w1))) =
          tbl_order_items (db ?w1) @ rows"
    and ok: "\<forall>r \<in> set rows. \<exists>item u. r = (order_item_of oid item)\<lparr>oi_id := u\<rparr>"
    by blast
  show ?case
  proof (cases "fst (request (order_items_insert (order_item_of oid item)) w) = Rejected")
    case True
    then show ?thesis using r0 ok0
      by (simp add: insert_order_items_Cons del: insert_order_items.simps)
  next
    case False
    have "tbl_order_items (db (snd (insert_order_items oid (item # rest) w))) =
            tbl_order_items (db w) @ (rows0 @ rows)"
      using False r r0 by (simp add: insert_order_items_Cons del: insert_order_items.simps)
    moreover have "\<forall>r \<in> set (rows0 @ rows). \<exists>item u. r = (order_item_of oid item)\<lparr>oi_id := u\<rparr>"
      using ok0 ok by auto
    ultimately show ?thesis by blast
  qed
qed

lemma insert_order_items_accepted:
  "\<forall>k < length its. \<exists>u. reply_of w (calls w + k) = Accepted u \<Longrightarrow>
   fst (insert_order_items oid its w) = Inr ()
   \<and> (\<exists>rows. tbl_order_items (db (snd (insert_order_items oid its w))) =
               tbl_order_items (db w) @ rows
           \<and> map (\<lambda>r. r\<lparr>oi_id := []\<rparr>) rows = map (order_item_of oid) its)"
proof (induction its arbitrary: w)
  case Nil
  show ?case by simp
next
  case (Cons item rest)
  let ?r = "order_item_of oid item"
  let ?w1 = "snd (request (order_items_insert ?r) w)"
  from Cons.prems obtain u where u: "reply_of w (calls w) = Accepted u"
    by force
  have req: "request (order_items_insert ?r) w =
               (Data (), w\<lparr>calls := Suc (calls w),
                           db := (db w)\<lparr>tbl_order_items := tbl_order_items (db w) @ [?r\<lparr>oi_id := u\<rparr>]\<rparr>\<rparr>)"
    using u by (simp add: request_Accepted order_items_insert_def)
  have next_ok: "\<forall>k < length rest. \<exists>u. reply_of ?w1 (calls ?w1 + k) = Accepted u"
  proof (intro allI impI)
    fix k assume "k < length rest"
    then have "Suc k < length (item # rest)" by simp
    with Cons.prems obtain u' where "reply_of w (calls w + Suc k) = Accepted u'" by blast
    then show "\<exists>u. reply_of ?w1 (calls ?w1 + k) = Accepted u" by simp
  qed
  from Cons.IH [OF next_ok] obtain rows where
    ok: "fst (insert_order_items oid rest ?w1) = Inr ()"
    and r: "tbl_order_items (db (snd (insert_order_items oid rest ?w1))) =
              tbl_order_items (db ?w1) @ rows"
    and m: "map (\<lambda>r. r\<lparr>oi_id := []\<rparr>) rows = map (order_item_of oid) rest"
    by blast
  have strip: "?r\<lparr>oi_id := u\<rparr>\<lparr>oi_id := []\<rparr> = ?r"
    by (simp add: order_item_of_def)
  have a: "fst (insert_order_items oid (item # rest) w) = Inr ()"
    using ok req by (simp add: insert_order_items_Cons del: insert_order_items.simps)
  have b: "tbl_order_items (db (snd (insert_order_items oid (item # rest) w))) =
             tbl_order_items (db w) @ (?r\<lparr>oi_id := u\<rparr> # rows)"
    using r req by (simp add: insert_order_items_Cons del: insert_order_items.simps)
  have c: "map (\<lambda>r. r\<lparr>oi_id := []\<rparr>) (?r\<lparr>oi_id := u\<rparr> # rows) = map (order_item_of oid) (item # rest)"
    using m strip by simp
  from a b c show ?case by blast
qed


lemma cart_items_delete_cart_db:
  "db (snd (request (cart_items_delete_cart c) w)) = db w
   \<or> (\<exists>u. reply_of w (calls w) = Accepted u
          \<and> db (snd (request (cart_items_delete_cart c) w)) =
              (db w)\<lparr>tbl_cart_items := filter (\<lambda>r. ci_cart_id r \<noteq> c) (tbl_cart_items (db w))\<rparr>)"
  using request_db [of "cart_items_delete_cart c" w]
  by (auto simp: cart_items_delete_cart_def)

lemma clearCart_frame:
  "tbl_orders (db (clearCart w)) = tbl_orders (db w)
   \<and> tbl_order_items (db (clearCart w)) = tbl_order_items (db w)
   \<and> step (clearCart w) = step w
   \<and> toasts (clearCart w) = toasts w"
proof -
  have "\<And>c. tbl_orders (db (snd (request (cart_items_delete_cart c) w))) = tbl_orders (db w)
            \<and> tbl_order_items (db (snd (request (cart_items_delete_cart c) w)))
                = tbl_order_items (db w)"
    subgoal for c
      using cart_items_delete_cart_db [of c w] by auto
    done
  then show ?thesis
    by (simp add: clearCart_def case_Rejected split: option.splits)
qed

lemma new_order_processing [simp]:
  "new_order uid (w\<lparr>processing := b\<rparr>) = new_order uid w"
  by (simp add: new_order_def)

lemma processOrder_created:
  assumes "user w = Some uid" and "reply_of w (calls w) = Accepted oid"
  defines "w1 \<equiv> w\<lparr>processing := True, calls := Suc (calls w),
                   db := (db w)\<lparr>tbl_orders := tbl_orders (db w) @ [(new_order uid w)\<lparr>ord_id := oid\<rparr>]\<rparr>\<rparr>"
  shows "processOrder w =
           (case insert_order_items oid (items w) w1 of
              (Inl e, w2) \<Rightarrow> toast_show Purchase_failed w2
            | (Inr x, w2) \<Rightarrow> toast_show Purchased ((clearCart w2)\<lparr>step := Success\<rparr>))
           \<lparr>processing := False\<rparr>"
proof -
  have "ord_status (new_order uid w) \<in> set order_statuses"
    by (simp add: new_order_def order_statuses_def)
  then have "request (orders_insert (new_order uid w)) (w\<lparr>processing := True\<rparr>) = (Data oid, w1)"
    using assms(2) by (simp add: request_Accepted orders_insert_def w1_def)
  then show ?thesis
    using assms(1) by (simp add: processOrder_def Let_def)
qed

lemma processOrder_tables:
  assumes "user w = Some uid" and "reply_of w (calls w) = Accepted oid"
  defines "w1 \<equiv> w\<lparr>processing := True, calls := Suc (calls w),
                   db := (db w)\<lparr>tbl_orders := tbl_orders (db w) @ [(new_order uid w)\<lparr>ord_id := oid\<rparr>]\<rparr>\<rparr>"
  shows "tbl_orders (db (processOrder w)) =
           tbl_orders (db w) @ [(new_order uid w)\<lparr>ord_id := oid\<rparr>]"
    and "tbl_order_items (db (processOrder w)) =
           tbl_order_items (db (snd (insert_order_items oid (items w) w1)))"
proof -
  note po = processOrder_created [OF assms(1,2), folded w1_def]
  note fr = insert_order_items_fields [of oid "items w" w1]
  obtain r w2 where l: "insert_order_items oid (items w) w1 = (r, w2)"
    by (cases "insert_order_items oid (items w) w1")
  have o2: "tbl_orders (db w2) = tbl_orders (db w) @ [(new_order uid w)\<lparr>ord_id := oid\<rparr>]"
    using fr l by (simp add: w1_def)
  show "tbl_orders (db (processOrder w)) =
           tbl_orders (db w) @ [(new_order uid w)\<lparr>ord_id := oid\<rparr>]"
    using po l o2 clearCart_frame [of w2]
    by (cases r) (simp_all add: toast_show_def)
  show "tbl_order_items (db (processOrder w)) =
           tbl_order_items (db (snd (insert_order_items oid (items w) w1)))"
    using po l clearCart_frame [of w2]
    by (cases r) (simp_all add: toast_show_def)
qed

text \<open>
  C2. A checkout submission by a signed-in user whose order insert is carried out creates
  one order whose total is \<^verbatim>\<open>total\<close> of the current cart items, and that total is the sum
  of the subtotals of the order items that \<^verbatim>\<open>processOrder\<close> builds from the cart items.
  Every order item row created by the submission, whatever the service replies to the later
  requests, belongs to that order and has \<open>subtotal = product_price * quantity\<close>. When each
  insert of an order item is carried out, the created rows are exactly the rows built from
  the cart items, in order, and the order's total equals the sum of their subtotals. The
  cart {A, 10.00, 2}, {B, 5.50, 1} gives the total 25.50 and the order items
  {A, 10.00, 2, 20.00} and {B, 5.50, 1, 5.50}.
\<close>

theorem checkout_total_is_sum_of_subtotals:
  "(user w = Some uid \<and> reply_of w (calls w) = Accepted oid \<longrightarrow>
      tbl_orders (db (processOrder w)) =
        tbl_orders (db w) @ [(new_order uid w)\<lparr>ord_id := oid\<rparr>]
      \<and> ord_total ((new_order uid w)\<lparr>ord_id := oid\<rparr>) =
          sum_list (map (\<lambda>item. oi_subtotal (order_item_of oid item)) (items w))
      \<and> (\<forall>r \<in> set (drop (length (tbl_order_items (db w)))
                      (tbl_order_items (db (processOrder w)))).
            oi_order_id r = oid
            \<and> oi_subtotal r = oi_product_price r * of_int (oi_quantity r))
      \<and> ((\<forall>k < length (items w). \<exists>u. reply_of w (Suc (calls w) + k) = Accepted u) \<longrightarrow>
            map (\<lambda>r. r\<lparr>oi_id := []\<rparr>)
              (drop (length (tbl_order_items (db w))) (tbl_order_items (db (processOrder w))))
              = map (order_item_of oid) (items w)
            \<and> sum_list (map oi_subtotal
                (drop (length (tbl_order_items (db w))) (tbl_order_items (db (processOrder w)))))
              = ord_total ((new_order uid w)\<lparr>ord_id := oid\<rparr>)))
   \<and> map ord_total (tbl_orders (db (processOrder
        (cart_shop [Accepted ''order-1'', Accepted ''oi-1'', Accepted ''oi-2'', Accepted ''q'']))))
        = [25.5]
   \<and> map (\<lambda>r. (oi_product_id r, oi_product_price r, oi_quantity r, oi_subtotal r))
        (tbl_order_items (db (processOrder
          (cart_shop [Accepted ''order-1'', Accepted ''oi-1'', Accepted ''oi-2'', Accepted ''q'']))))
        = [(''A'', 10, 2, 20), (''B'', 5.5, 1, 5.5)]"
proof (intro conjI impI)
  assume h: "user w = Some uid \<and> reply_of w (calls w) = Accepted oid"
  define w1 where "w1 = w\<lparr>processing := True, calls := Suc (calls w),
                   db := (db w)\<lparr>tbl_orders := tbl_orders (db w) @ [(new_order uid w)\<lparr>ord_id := oid\<rparr>]\<rparr>\<rparr>"
  from h have u: "user w = Some uid" and a: "reply_of w (calls w) = Accepted oid" by simp_all
  note tabs = processOrder_tables [OF u a, folded w1_def]
  show "tbl_orders (db (processOrder w)) =
        tbl_orders (db w) @ [(new_order uid w)\<lparr>ord_id := oid\<rparr>]"
    by (rule tabs(1))
  show tot: "ord_total ((new_order uid w)\<lparr>ord_id := oid\<rparr>) =
          sum_list (map (\<lambda>item. oi_subtotal (order_item_of oid item)) (items w))"
    by (simp add: new_order_def total_cart_sum [of _ oid])
  have before: "tbl_order_items (db w1) = tbl_order_items (db w)"
    by (simp add: w1_def)
  from insert_order_items_rows [of oid "items w" w1] obtain rows where
    rows: "tbl_order_items (db (processOrder w)) = tbl_order_items (db w) @ rows"
    and ok: "\<forall>r \<in> set rows. \<exists>item u. r = (order_item_of oid item)\<lparr>oi_id := u\<rparr>"
    unfolding tabs(2) before by blast
  have created: "drop (length (tbl_order_items (db w))) (tbl_order_items (db (processOrder w))) = rows"
    by (simp add: rows)
  show "\<forall>r \<in> set (drop (length (tbl_order_items (db w)))
                      (tbl_order_items (db (processOrder w)))).
            oi_order_id r = oid
            \<and> oi_subtotal r = oi_product_price r * of_int (oi_quantity r)"
    unfolding created using ok by (auto simp: order_item_of_def)
  {
    assume acc: "\<forall>k < length (items w). \<exists>u. reply_of w (Suc (calls w) + k) = Accepted u"
    then have acc1: "\<forall>k < length (items w). \<exists>u. reply_of w1 (calls w1 + k) = Accepted u"
      by (simp add: w1_def)
    from insert_order_items_accepted [OF acc1, of oid] obtain rows' where
      r': "tbl_order_items (db (processOrder w)) = tbl_order_items (db w) @ rows'"
      and m: "map (\<lambda>r. r\<lparr>oi_id := []\<rparr>) rows' = map (order_item_of oid) (items w)"
      unfolding tabs(2) before by blast
    from r' rows have same: "rows' = rows" by simp
    show stripped: "map (\<lambda>r. r\<lparr>oi_id := []\<rparr>)
              (drop (length (tbl_order_items (db w))) (tbl_order_items (db (processOrder w))))
              = map (order_item_of oid) (items w)"
      unfolding created using m same by simp
    have "map oi_subtotal rows = map oi_subtotal (map (\<lambda>r. r\<lparr>oi_id := []\<rparr>) rows)"
      by simp
    also have "\<dots> = map (\<lambda>item. oi_subtotal (order_item_of oid item)) (items w)"
      using m same by (simp add: comp_def)
    finally show "sum_list (map oi_subtotal
                (drop (length (tbl_order_items (db w))) (tbl_order_items (db (processOrder w)))))
              = ord_total ((new_order uid w)\<lparr>ord_id := oid\<rparr>)"
      unfolding created using tot by simp
  }
next
  show "map ord_total (tbl_orders (db (processOrder
        (cart_shop [Accepted ''order-1'', Accepted ''oi-1'', Accepted ''oi-2'', Accepted ''q'']))))
        = [25.5]"
    by code_simp
next
  show "map (\<lambda>r. (oi_product_id r, oi_product_price r, oi_quantity r, oi_subtotal r))
        (tbl_order_items (db (processOrder
          (cart_shop [Accepted ''order-1'', Accepted ''oi-1'', Accepted ''oi-2'', Accepted ''q'']))))
        = [(''A'', 10, 2, 20), (''B'', 5.5, 1, 5.5)]"
    by code_simp
qed


theorem checkout_total_is_sum_of_subtotals_witness:
  "user (cart_shop [Accepted ''order-1'', Accepted ''oi-1'', Accepted ''oi-2'', Accepted ''q''])
     = Some ''user-1''
   \<and> reply_of (cart_shop [Accepted ''order-1'', Accepted ''oi-1'', Accepted ''oi-2'', Accepted ''q''])
        (calls (cart_shop [Accepted ''order-1'', Accepted ''oi-1'', Accepted ''oi-2'', Accepted ''q'']))
     = Accepted ''order-1''
   \<and> length (items (cart_shop [Accepted ''order-1'', Accepted ''oi-1'', Accepted ''oi-2'', Accepted ''q''])) = 2
   \<and> list_all (\<lambda>k. \<exists>u. reply_of
          (cart_shop [Accepted ''order-1'', Accepted ''oi-1'', Accepted ''oi-2'', Accepted ''q''])
          (Suc (calls (cart_shop [Accepted ''order-1'', Accepted ''oi-1'', Accepted ''oi-2'', Accepted ''q''])) + k)
            = Accepted u) [0, 1]
   \<and> map ord_total (tbl_orders (db (processOrder
        (cart_shop [Accepted ''order-1'', Accepted ''oi-1'', Accepted ''oi-2'', Accepted ''q'']))))
        = [25.5]
   \<and> sum_list (map oi_subtotal
        (drop (length (tbl_order_items (db
                 (cart_shop [Accepted ''order-1'', Accepted ''oi-1'', Accepted ''oi-2'', Accepted ''q'']))))
           (tbl_order_items (db (processOrder
              (cart_shop [Accepted ''order-1'', Accepted ''oi-1'', Accepted ''oi-2'', Accepted ''q'']))))))
        = 25.5"
proof -
  let ?W = "cart_shop [Accepted ''order-1'', Accepted ''oi-1'', Accepted ''oi-2'', Accepted ''q'']"
  have u: "user ?W = Some ''user-1''"
    and c: "calls ?W = 0"
    and r: "reply_of ?W = scripted [Accepted ''order-1'', Accepted ''oi-1'', Accepted ''oi-2'', Accepted ''q'']"
    and n: "length (items ?W) = 2"
    and no_orders: "tbl_orders (db ?W) = []"
    by (simp_all add: cart_shop_def shop_def)
  have r0: "reply_of ?W (calls ?W) = Accepted ''order-1''"
    by (simp add: r c scripted_def)
  have served: "\<forall>k < length (items ?W). \<exists>u. reply_of ?W (Suc (calls ?W) + k) = Accepted u"
    unfolding n r c by (simp add: scripted_def less_Suc_eq numeral_2_eq_2)
  have tot: "ord_total ((new_order ''user-1'' ?W)\<lparr>ord_id := ''order-1''\<rparr>) = 25.5"
    by (simp add: new_order_def total_cart_def price_or_0_def cart_shop_def shop_def
          product_A_def product_B_def)
  note t = checkout_total_is_sum_of_subtotals [of ?W "''user-1''" "''order-1''"]
  from t u r0 have orders: "tbl_orders (db (processOrder ?W)) =
        tbl_orders (db ?W) @ [(new_order ''user-1'' ?W)\<lparr>ord_id := ''order-1''\<rparr>]"
    by blast
  from t u r0 served have sum: "sum_list (map oi_subtotal
        (drop (length (tbl_order_items (db ?W))) (tbl_order_items (db (processOrder ?W)))))
        = ord_total ((new_order ''user-1'' ?W)\<lparr>ord_id := ''order-1''\<rparr>)"
    by blast
  have l: "list_all (\<lambda>k. \<exists>u. reply_of ?W (Suc (calls ?W) + k) = Accepted u) [0, 1]"
    unfolding r c by (simp add: scripted_def)
  have o: "map ord_total (tbl_orders (db (processOrder ?W))) = [25.5]"
    unfolding orders no_orders using tot by simp
  show ?thesis using u r0 n l o sum tot by simp
qed

text \<open>
  Without the proviso the order's total is not the sum of the subtotals of its stored
  items. In \<open>cart_shop\<close> the order \<^verbatim>\<open>order-1\<close> is created with the total 25.50. When the
  promise of the insert for B is rejected, \<^verbatim>\<open>processOrder\<close> reports \<open>Purchase_failed\<close> and
  nothing is undone: the order stays, with the single order item of subtotal 20.00. When
  the insert for A resolves to an error, the loop goes on, the checkout reaches the success
  step, and the order has the single order item of subtotal 5.50.
\<close>

theorem checkout_order_without_all_items:
  "map (\<lambda>r. (ord_id r, ord_total r)) (tbl_orders (db (processOrder
      (cart_shop [Accepted ''order-1'', Accepted ''oi-1'', Thrown]))))
     = [(''order-1'', 51 / 2)]
   \<and> map (\<lambda>r. (oi_order_id r, oi_product_id r, oi_subtotal r))
        (tbl_order_items (db (processOrder
           (cart_shop [Accepted ''order-1'', Accepted ''oi-1'', Thrown]))))
     = [(''order-1'', ''A'', 20)]
   \<and> toasts (processOrder (cart_shop [Accepted ''order-1'', Accepted ''oi-1'', Thrown]))
     = [Purchase_failed]
   \<and> step (processOrder (cart_shop [Accepted ''order-1'', Accepted ''oi-1'', Thrown]))
     = Confirmation
   \<and> map (\<lambda>r. (ord_id r, ord_total r)) (tbl_orders (db (processOrder
      (cart_shop [Accepted ''order-1'', Refused, Accepted ''oi-2'', Accepted ''q'']))))
     = [(''order-1'', 51 / 2)]
   \<and> map (\<lambda>r. (oi_order_id r, oi_product_id r, oi_subtotal r))
        (tbl_order_items (db (processOrder
           (cart_shop [Accepted ''order-1'', Refused, Accepted ''oi-2'', Accepted ''q'']))))
     = [(''order-1'', ''B'', 11 / 2)]
   \<and> step (processOrder
        (cart_shop [Accepted ''order-1'', Refused, Accepted ''oi-2'', Accepted ''q'']))
     = Success"
  by code_simp

lemma case_sum_pair:
  "(case p of (Inl e, w1) \<Rightarrow> A w1 | (Inr x, w1) \<Rightarrow> B w1) =
     (case fst p of Inl e \<Rightarrow> A (snd p) | Inr x \<Rightarrow> B (snd p))"
  by (auto split: prod.splits sum.splits)

lemma processOrder_unfold:
  "processOrder w =
     (case user w of
        None \<Rightarrow> toast_show Purchase_failed (w\<lparr>processing := True\<rparr>)
      | Some uid \<Rightarrow>
          (case fst (request (orders_insert (new_order uid w)) (w\<lparr>processing := True\<rparr>)) of
             Data oid \<Rightarrow>
               (case fst (insert_order_items oid (items w)
                       (snd (request (orders_insert (new_order uid w)) (w\<lparr>processing := True\<rparr>)))) of
                  Inl e \<Rightarrow> toast_show Purchase_failed
                     (snd (insert_order_items oid (items w)
                       (snd (request (orders_insert (new_order uid w)) (w\<lparr>processing := True\<rparr>)))))
                | Inr x \<Rightarrow> toast_show Purchased
                     ((clearCart (snd (insert_order_items oid (items w)
                       (snd (request (orders_insert (new_order uid w)) (w\<lparr>processing := True\<rparr>))))))
                      \<lparr>step := Success\<rparr>))
           | _ \<Rightarrow> toast_show Purchase_failed
                  (snd (request (orders_insert (new_order uid w)) (w\<lparr>processing := True\<rparr>)))))
     \<lparr>processing := False\<rparr>"
  by (auto simp: processOrder_def Let_def split: option.splits prod.splits response.splits sum.splits)

lemma orders_insert_cart_items:
  "tbl_cart_items (db (snd (request (orders_insert r) w))) = tbl_cart_items (db w)"
  by (simp add: request_def Let_def orders_insert_def split: reply.splits)

lemma clearCart_accepted:
  assumes "cartId w = Some c" and "c \<noteq> []" and "reply_of w (calls w) = Accepted u"
  shows "tbl_cart_items (db (clearCart w)) =
           filter (\<lambda>r. ci_cart_id r \<noteq> c) (tbl_cart_items (db w))"
    and "items (clearCart w) = []"
  using assms
  by (simp_all add: clearCart_def request_Accepted cart_items_delete_cart_def)

text \<open>
  C6, as the code has it. \<^verbatim>\<open>processOrder\<close> sets the step to \<^verbatim>\<open>success\<close> after
  \<^verbatim>\<open>clearCart\<close> returns, and \<^verbatim>\<open>clearCart\<close> returns normally whatever became of its
  deletion. If a submission takes the flow to the success state and the deletion that
  \<^verbatim>\<open>clearCart\<close> requests (the last request of the submission) is carried out, then no
  cart item of the originating cart is left in the table and the local list is empty.
\<close>

theorem checkout_success_clears_cart_when_deleted:
  "step w \<noteq> Success \<and> step (processOrder w) = Success
   \<and> cartId w = Some c \<and> c \<noteq> []
   \<and> reply_of w (Suc (calls w) + length (items w)) = Accepted u
   \<longrightarrow> filter (\<lambda>r. ci_cart_id r = c) (tbl_cart_items (db (processOrder w))) = []
       \<and> items (processOrder w) = []"
proof (intro impI)
  assume h: "step w \<noteq> Success \<and> step (processOrder w) = Success
   \<and> cartId w = Some c \<and> c \<noteq> []
   \<and> reply_of w (Suc (calls w) + length (items w)) = Accepted u"
  then have before: "step w \<noteq> Success" and after: "step (processOrder w) = Success"
    and cart: "cartId w = Some c" and c: "c \<noteq> []"
    and del: "reply_of w (Suc (calls w) + length (items w)) = Accepted u"
    by simp_all
  show "filter (\<lambda>r. ci_cart_id r = c) (tbl_cart_items (db (processOrder w))) = []
       \<and> items (processOrder w) = []"
  proof (cases "user w")
    case None
    then have "step (processOrder w) = step w"
      by (simp add: processOrder_unfold toast_show_def)
    with before after show ?thesis by simp
  next
    case (Some uid)
    let ?p = "request (orders_insert (new_order uid w)) (w\<lparr>processing := True\<rparr>)"
    show ?thesis
    proof (cases "fst ?p")
      case (Data oid)
      let ?l = "insert_order_items oid (items w) (snd ?p)"
      note fr = insert_order_items_fields [of oid "items w" "snd ?p"]
      show ?thesis
      proof (cases "fst ?l")
        case (Inl e)
        then have "step (processOrder w) = step w"
          using Some Data fr by (simp add: processOrder_unfold toast_show_def)
        with before after show ?thesis by simp
      next
        case (Inr x)
        then have po: "processOrder w =
            (toast_show Purchased ((clearCart (snd ?l))\<lparr>step := Success\<rparr>))\<lparr>processing := False\<rparr>"
          using Some Data by (simp add: processOrder_unfold)
        from Inr have "fst ?l = Inr ()" by simp
        from insert_order_items_calls [OF this]
        have calls2: "calls (snd ?l) = Suc (calls w) + length (items w)" by simp
        have cart2: "cartId (snd ?l) = Some c" using fr cart by simp
        have reply2: "reply_of (snd ?l) (calls (snd ?l)) = Accepted u"
          using fr del calls2 by simp
        note cl = clearCart_accepted [OF cart2 c reply2]
        from cl show ?thesis
          by (simp add: po toast_show_def filter_filter)
      qed
    next
      case Error_response
      then have "step (processOrder w) = step w"
        using Some by (simp add: processOrder_unfold toast_show_def)
      with before after show ?thesis by simp
    next
      case Rejected
      then have "step (processOrder w) = step w"
        using Some by (simp add: processOrder_unfold toast_show_def)
      with before after show ?thesis by simp
    qed
  qed
qed

theorem checkout_success_clears_cart_when_deleted_witness:
  "step (cart_shop [Accepted ''order-1'', Accepted ''oi-1'', Accepted ''oi-2'', Accepted ''q''])
     \<noteq> Success
   \<and> step (processOrder
        (cart_shop [Accepted ''order-1'', Accepted ''oi-1'', Accepted ''oi-2'', Accepted ''q'']))
     = Success
   \<and> cartId (cart_shop [Accepted ''order-1'', Accepted ''oi-1'', Accepted ''oi-2'', Accepted ''q''])
     = Some ''cart-1''
   \<and> reply_of (cart_shop [Accepted ''order-1'', Accepted ''oi-1'', Accepted ''oi-2'', Accepted ''q''])
        (Suc (calls (cart_shop [Accepted ''order-1'', Accepted ''oi-1'', Accepted ''oi-2'', Accepted ''q'']))
         + length (items (cart_shop [Accepted ''order-1'', Accepted ''oi-1'', Accepted ''oi-2'', Accepted ''q''])))
     = Accepted ''q''
   \<and> filter (\<lambda>r. ci_cart_id r = ''cart-1'')
        (tbl_cart_items (db (processOrder
           (cart_shop [Accepted ''order-1'', Accepted ''oi-1'', Accepted ''oi-2'', Accepted ''q'']))))
     = []
   \<and> items (processOrder
        (cart_shop [Accepted ''order-1'', Accepted ''oi-1'', Accepted ''oi-2'', Accepted ''q'']))
     = []"
proof -
  let ?W = "cart_shop [Accepted ''order-1'', Accepted ''oi-1'', Accepted ''oi-2'', Accepted ''q'']"
  have before: "step ?W \<noteq> Success" and cart: "cartId ?W = Some ''cart-1''"
    and del: "reply_of ?W (Suc (calls ?W) + length (items ?W)) = Accepted ''q''"
    by (simp_all add: cart_shop_def shop_def scripted_def)
  have after: "step (processOrder ?W) = Success"
    by code_simp
  have c: "''cart-1'' \<noteq> []" by simp
  from checkout_success_clears_cart_when_deleted [of ?W "''cart-1''" "''q''"]
       before after cart c del
  have "filter (\<lambda>r. ci_cart_id r = ''cart-1'') (tbl_cart_items (db (processOrder ?W))) = []
        \<and> items (processOrder ?W) = []"
    by blast
  with before after cart del show ?thesis by blast
qed

text \<open>
  C6, as the claim states it, fails: in \<open>cart_shop\<close> the order and its two items are
  created and the deletion of the cart items fails. Whether its promise rejects, which
  \<^verbatim>\<open>clearCart\<close> catches and logs, or it resolves to an error, which \<^verbatim>\<open>clearCart\<close> does not
  read, the flow still reaches the success state with the success notice, while both rows
  of the cart \<^verbatim>\<open>cart-1\<close> are still in the table.
\<close>

theorem checkout_success_with_cart_not_cleared:
  "step (cart_shop [Accepted ''order-1'', Accepted ''oi-1'', Accepted ''oi-2'', Refused])
     = Confirmation
   \<and> cartId (cart_shop [Accepted ''order-1'', Accepted ''oi-1'', Accepted ''oi-2'', Refused])
     = Some ''cart-1''
   \<and> step (processOrder
        (cart_shop [Accepted ''order-1'', Accepted ''oi-1'', Accepted ''oi-2'', Refused]))
     = Success
   \<and> toasts (processOrder
        (cart_shop [Accepted ''order-1'', Accepted ''oi-1'', Accepted ''oi-2'', Refused]))
     = [Purchased]
   \<and> map ci_id (filter (\<lambda>r. ci_cart_id r = ''cart-1'')
        (tbl_cart_items (db (processOrder
           (cart_shop [Accepted ''order-1'', Accepted ''oi-1'', Accepted ''oi-2'', Refused])))))
     = [''item-1'', ''item-2'']
   \<and> step (processOrder
        (cart_shop [Accepted ''order-1'', Accepted ''oi-1'', Accepted ''oi-2'', Thrown]))
     = Success
   \<and> toasts (processOrder
        (cart_shop [Accepted ''order-1'', Accepted ''oi-1'', Accepted ''oi-2'', Thrown]))
     = [Purchased]
   \<and> map ci_id (filter (\<lambda>r. ci_cart_id r = ''cart-1'')
        (tbl_cart_items (db (processOrder
           (cart_shop [Accepted ''order-1'', Accepted ''oi-1'', Accepted ''oi-2'', Thrown])))))
     = [''item-1'', ''item-2'']"
  by code_simp

subsection \<open>Fulfilment\<close>

lemma or_0_id: "or_0 n = n"
  by (simp add: or_0_def)

lemma single_filter_eq:
  "filter P xs = [p] \<Longrightarrow> x \<in> set xs \<Longrightarrow> P x \<Longrightarrow> x = p"
proof -
  assume a: "filter P xs = [p]" and b: "x \<in> set xs" and c: "P x"
  from b c have "x \<in> set (filter P xs)" by simp
  with a show "x = p" by simp
qed

text \<open>One iteration whose two requests are carried out, for a product that exists.\<close>

lemma reduce_stock_accepted:
  assumes fetch: "reply_of w (calls w) = Accepted u"
    and upd: "reply_of w (Suc (calls w)) = Accepted u'"
    and one: "filter (\<lambda>p. prod_id p = oi_product_id item) (tbl_products (db w)) = [p]"
  shows "fst (reduce_stock item w) = Inr ()"
    and "tbl_products (db (snd (reduce_stock item w))) =
           map (\<lambda>x. if prod_id x = oi_product_id item
                     then x\<lparr>prod_stock := max 0 (prod_stock x - oi_quantity item)\<rparr> else x)
             (tbl_products (db w))"
proof -
  have same: "\<And>x. x \<in> set (tbl_products (db w)) \<Longrightarrow> prod_id x = oi_product_id item
                  \<Longrightarrow> prod_stock x = prod_stock p"
    using single_filter_eq [OF one] by blast
  have fetched: "request (products_select_stock_single (oi_product_id item)) w
                   = (Data (prod_stock p), w\<lparr>calls := Suc (calls w)\<rparr>)"
    using fetch one by (simp add: request_Accepted products_select_stock_single_def)
  show "fst (reduce_stock item w) = Inr ()"
    using fetched upd
    by (simp add: reduce_stock_def request_Accepted products_update_stock_def)
  have "tbl_products (db (snd (reduce_stock item w))) =
          map (\<lambda>x. if prod_id x = oi_product_id item
                    then x\<lparr>prod_stock := max 0 (prod_stock p - oi_quantity item)\<rparr> else x)
            (tbl_products (db w))"
    using fetched upd
    by (simp add: reduce_stock_def request_Accepted products_update_stock_def or_0_id)
  also have "\<dots> = map (\<lambda>x. if prod_id x = oi_product_id item
                    then x\<lparr>prod_stock := max 0 (prod_stock x - oi_quantity item)\<rparr> else x)
            (tbl_products (db w))"
    by (rule map_cong) (auto simp: same)
  finally show "tbl_products (db (snd (reduce_stock item w))) =
           map (\<lambda>x. if prod_id x = oi_product_id item
                     then x\<lparr>prod_stock := max 0 (prod_stock x - oi_quantity item)\<rparr> else x)
             (tbl_products (db w))" .
qed

text \<open>Whatever the service replies, one iteration writes that value or nothing.\<close>

lemma reduce_stock_products:
  "tbl_products (db (snd (reduce_stock item w))) = tbl_products (db w)
   \<or> tbl_products (db (snd (reduce_stock item w))) =
       map (\<lambda>p. if prod_id p = oi_product_id item
                 then p\<lparr>prod_stock := max 0 (prod_stock p - oi_quantity item)\<rparr> else p)
         (tbl_products (db w))"
proof (cases "reply_of w (calls w)")
  case (Accepted u)
  note fetch = Accepted
  show ?thesis
  proof (cases "filter (\<lambda>p. prod_id p = oi_product_id item) (tbl_products (db w))")
    case Nil
    with fetch show ?thesis
      by (simp add: reduce_stock_def request_Accepted products_select_stock_single_def)
  next
    case (Cons p ps)
    note f = Cons
    show ?thesis
    proof (cases ps)
      case Nil
      with f have one: "filter (\<lambda>p. prod_id p = oi_product_id item) (tbl_products (db w)) = [p]"
        by simp
      have fetched: "request (products_select_stock_single (oi_product_id item)) w
                       = (Data (prod_stock p), w\<lparr>calls := Suc (calls w)\<rparr>)"
        using fetch one by (simp add: request_Accepted products_select_stock_single_def)
      show ?thesis
      proof (cases "reply_of w (Suc (calls w))")
        case (Accepted u')
        from reduce_stock_accepted(2) [OF fetch Accepted one] show ?thesis by blast
      next
        case Refused
        then show ?thesis using fetched
          by (simp add: reduce_stock_def request_Refused)
      next
        case Thrown
        then show ?thesis using fetched
          by (simp add: reduce_stock_def request_Thrown)
      qed
    next
      case (Cons p' ps')
      with f fetch show ?thesis
        by (simp add: reduce_stock_def request_Accepted products_select_stock_single_def)
    qed
  qed
next
  case Refused
  then show ?thesis by (simp add: reduce_stock_def request_Refused)
next
  case Thrown
  then show ?thesis by (simp add: reduce_stock_def request_Thrown)
qed

lemma reduce_stock_nonneg:
  assumes "\<forall>p \<in> set (tbl_products (db w)). 0 \<le> prod_stock p"
  shows "\<forall>p \<in> set (tbl_products (db (snd (reduce_stock item w)))). 0 \<le> prod_stock p"
  using reduce_stock_products [of item w] assms by auto

lemma reduce_stocks_nonneg:
  "\<forall>p \<in> set (tbl_products (db w)). 0 \<le> prod_stock p \<Longrightarrow>
   \<forall>p \<in> set (tbl_products (db (snd (reduce_stocks its w)))). 0 \<le> prod_stock p"
proof (induction its arbitrary: w)
  case Nil
  then show ?case by simp
next
  case (Cons item rest)
  have step: "\<forall>p \<in> set (tbl_products (db (snd (reduce_stock item w)))). 0 \<le> prod_stock p"
    using Cons.prems by (rule reduce_stock_nonneg)
  show ?case
  proof (cases "reduce_stock item w")
    case (Pair r w1)
    with step have w1: "\<forall>p \<in> set (tbl_products (db w1)). 0 \<le> prod_stock p" by simp
    show ?thesis
    proof (cases r)
      case (Inl e)
      with Pair w1 show ?thesis by simp
    next
      case (Inr x)
      with Pair Cons.IH [OF w1] show ?thesis by simp
    qed
  qed
qed

text \<open>After the loop, \<^verbatim>\<open>handleCompleteOrder\<close> writes to \<^verbatim>\<open>orders\<close> only.\<close>

lemma handleCompleteOrder_products:
  "tbl_products (db (handleCompleteOrder order w)) =
   tbl_products (db (snd (reduce_stocks (order_items order)
                            (w\<lparr>updatingOrderId := Some (order_id order)\<rparr>))))"
proof (cases "reduce_stocks (order_items order) (w\<lparr>updatingOrderId := Some (order_id order)\<rparr>)")
  case (Pair r w1)
  show ?thesis
  proof (cases r)
    case (Inl e)
    with Pair show ?thesis by (simp add: handleCompleteOrder_def toast_show_def)
  next
    case (Inr x)
    obtain d where d: "snd (request (orders_update_status (order_id order) ''delivered'') w1)
                        = w1\<lparr>calls := Suc (calls w1), db := d\<rparr>"
      and dd: "d = db w1
               \<or> (\<exists>u a. orders_update_status (order_id order) ''delivered'' u (db w1) = Some (a, d))"
      using request_shape [of "orders_update_status (order_id order) ''delivered''" w1] by blast
    have "tbl_products d = tbl_products (db w1)"
      using dd by (auto simp: orders_update_status_def split: if_splits)
    with Pair Inr d show ?thesis
      by (cases "request (orders_update_status (order_id order) ''delivered'') w1")
         (auto simp: handleCompleteOrder_def toast_show_def split: response.splits)
  qed
qed

text \<open>A key that is unique in a table selects one row.\<close>

lemma filter_single_distinct:
  "distinct (map f xs) \<Longrightarrow> x \<in> set xs \<Longrightarrow> filter (\<lambda>y. f y = f x) xs = [x]"
proof (induction xs)
  case Nil
  then show ?case by simp
next
  case (Cons a xs)
  show ?case
  proof (cases "a = x")
    case True
    have "\<forall>y \<in> set xs. f y \<noteq> f x"
      using Cons.prems(1) True by (auto simp: image_iff)
    then have "filter (\<lambda>y. f y = f x) xs = []" by (simp add: filter_empty_conv)
    with True show ?thesis by simp
  next
    case False
    with Cons.prems have "x \<in> set xs" by simp
    then have "f a \<noteq> f x" using Cons.prems(1) by (auto simp: image_iff)
    moreover have "filter (\<lambda>y. f y = f x) xs = [x]"
      using Cons.IH Cons.prems(1) \<open>x \<in> set xs\<close> by simp
    ultimately show ?thesis by simp
  qed
qed

text \<open>An iteration consumes replies; it does not change what the service will reply.\<close>

lemma reduce_stock_reply_of:
  "reply_of (snd (reduce_stock item w)) = reply_of w"
proof -
  obtain r w1 where s: "request (products_select_stock_single (oi_product_id item)) w = (r, w1)"
    by force
  then have w1: "w1 = snd (request (products_select_stock_single (oi_product_id item)) w)"
    by simp
  have o1: "reply_of w1 = reply_of w" unfolding w1 by simp
  show ?thesis
  proof (cases r)
    case (Data stock)
    obtain r2 w2 where u: "request (products_update_stock (oi_product_id item)
                              (max 0 (or_0 stock - oi_quantity item))) w1 = (r2, w2)"
      by force
    then have "w2 = snd (request (products_update_stock (oi_product_id item)
                              (max 0 (or_0 stock - oi_quantity item))) w1)"
      by simp
    then have "reply_of w2 = reply_of w1" by simp
    with o1 s Data u show ?thesis
      by (cases r2) (simp_all add: reduce_stock_def Let_def)
  next
    case Error_response
    with o1 s show ?thesis by (simp add: reduce_stock_def)
  next
    case Rejected
    with o1 s show ?thesis by (simp add: reduce_stock_def)
  qed
qed

lemma reduce_stock_accepted_calls:
  assumes fetch: "reply_of w (calls w) = Accepted u"
    and upd: "reply_of w (Suc (calls w)) = Accepted u'"
    and one: "filter (\<lambda>p. prod_id p = oi_product_id item) (tbl_products (db w)) = [p]"
  shows "calls (snd (reduce_stock item w)) = Suc (Suc (calls w))"
proof -
  have fetched: "request (products_select_stock_single (oi_product_id item)) w
                   = (Data (prod_stock p), w\<lparr>calls := Suc (calls w)\<rparr>)"
    using fetch one by (simp add: request_Accepted products_select_stock_single_def)
  show ?thesis
    using fetched upd
    by (simp add: reduce_stock_def request_Accepted products_update_stock_def)
qed

text \<open>
  The whole loop: when every referenced product has exactly one row and the fetch and the
  update of every item are carried out, the loop finishes and has applied the adjustment
  of every item, in the order of the items.
\<close>

lemma decrement_stock_ids:
  "map prod_id (spec_decrement_stock item ps) = map prod_id ps"
  by (induction ps) (simp_all add: spec_decrement_stock_def)

lemma reduce_stocks_accepted:
  assumes "distinct (map prod_id (tbl_products (db w)))"
    and "\<forall>item \<in> set its. oi_product_id item \<in> prod_id ` set (tbl_products (db w))"
    and "\<forall>k < 2 * length its. \<exists>u. reply_of w (calls w + k) = Accepted u"
  shows "fst (reduce_stocks its w) = Inr ()
         \<and> tbl_products (db (snd (reduce_stocks its w)))
             = spec_decrement_stocks its (tbl_products (db w))"
  using assms
proof (induction its arbitrary: w)
  case Nil
  show ?case by (simp add: spec_decrement_stocks_def)
next
  case (Cons item rest)
  from Cons.prems(3) obtain u u' where
    a0: "reply_of w (calls w) = Accepted u" and a1: "reply_of w (Suc (calls w)) = Accepted u'"
  proof -
    have "0 < 2 * length (item # rest)" and "1 < 2 * length (item # rest)" by simp_all
    with Cons.prems(3) have "\<exists>u. reply_of w (calls w + 0) = Accepted u"
      and "\<exists>u. reply_of w (calls w + 1) = Accepted u" by blast+
    then show ?thesis using that by auto
  qed
  from Cons.prems(2) obtain p where p: "p \<in> set (tbl_products (db w))"
    and pid: "prod_id p = oi_product_id item" by auto
  have one: "filter (\<lambda>q. prod_id q = oi_product_id item) (tbl_products (db w)) = [p]"
    using filter_single_distinct [OF Cons.prems(1) p] pid by simp
  let ?w1 = "snd (reduce_stock item w)"
  note acc = reduce_stock_accepted [OF a0 a1 one]
  have prods1: "tbl_products (db ?w1) = spec_decrement_stock item (tbl_products (db w))"
    using acc(2) by (simp add: spec_decrement_stock_def)
  have calls1: "calls ?w1 = Suc (Suc (calls w))"
    by (rule reduce_stock_accepted_calls [OF a0 a1 one])
  have d1: "distinct (map prod_id (tbl_products (db ?w1)))"
    using Cons.prems(1) by (simp add: prods1 decrement_stock_ids)
  have "prod_id ` set (tbl_products (db ?w1)) = prod_id ` set (tbl_products (db w))"
    using decrement_stock_ids [of item "tbl_products (db w)"]
    by (metis prods1 set_map)
  with Cons.prems(2) have m1:
    "\<forall>item \<in> set rest. oi_product_id item \<in> prod_id ` set (tbl_products (db ?w1))"
    by simp
  have r1: "\<forall>k < 2 * length rest. \<exists>u. reply_of ?w1 (calls ?w1 + k) = Accepted u"
  proof (intro allI impI)
    fix k assume "k < 2 * length rest"
    then have "k + 2 < 2 * length (item # rest)" by simp
    with Cons.prems(3) have "\<exists>u. reply_of w (calls w + (k + 2)) = Accepted u" by blast
    then show "\<exists>u. reply_of ?w1 (calls ?w1 + k) = Accepted u"
      by (simp add: reduce_stock_reply_of calls1)
  qed
  note IH = Cons.IH [OF d1 m1 r1]
  have pair': "reduce_stock item w = (Inr (), ?w1)"
    using acc(1) by (simp add: prod_eq_iff)
  have unfold: "reduce_stocks (item # rest) w = reduce_stocks rest ?w1"
    by (subst reduce_stocks.simps, subst pair') simp
  show ?case
    using IH by (simp only: unfold) (simp add: prods1 spec_decrement_stocks_def)
qed

text \<open>
  C1. \<^verbatim>\<open>completeOrder\<close> (\<^verbatim>\<open>handleCompleteOrder\<close>) and the stock. When every product referenced
  by the order has exactly one row and the stock fetch and the stock update of every item
  are carried out, the \<^verbatim>\<open>products\<close> table after \<^verbatim>\<open>handleCompleteOrder\<close> is the table before
  with, for every order item in turn, the stock of the referenced product set to
  \<open>max 0 (currentStock - quantity)\<close>. Whatever the service replies, one iteration writes
  that value or nothing; hence, whatever the order's items and whatever the service
  replies, stocks that were all non-negative are all non-negative afterwards. In
  \<open>admin_shop\<close> product A has stock 3; completing \<open>order_1\<close>, which asks for five of A,
  leaves its stock at exactly 0.
\<close>

theorem completeOrder_stock_never_negative:
  "(distinct (map prod_id (tbl_products (db w)))
      \<and> (\<forall>item \<in> set (order_items order).
            oi_product_id item \<in> prod_id ` set (tbl_products (db w)))
      \<and> (\<forall>k < 2 * length (order_items order). \<exists>u. reply_of w (calls w + k) = Accepted u)
      \<longrightarrow> tbl_products (db (handleCompleteOrder order w))
            = spec_decrement_stocks (order_items order) (tbl_products (db w)))
   \<and> (tbl_products (db (snd (reduce_stock item w))) = tbl_products (db w)
      \<or> tbl_products (db (snd (reduce_stock item w)))
          = spec_decrement_stock item (tbl_products (db w)))
   \<and> ((\<forall>p \<in> set (tbl_products (db w)). 0 \<le> prod_stock p) \<longrightarrow>
        (\<forall>p \<in> set (tbl_products (db (handleCompleteOrder order w))). 0 \<le> prod_stock p))
   \<and> map prod_stock
        (tbl_products (db (admin_shop [Accepted ''q'', Accepted ''q'', Accepted ''q''])))
        = [3, 8]
   \<and> map prod_stock (tbl_products (db (handleCompleteOrder order_1
         (admin_shop [Accepted ''q'', Accepted ''q'', Accepted ''q''])))) = [0, 8]"
proof (intro conjI impI)
  assume a: "distinct (map prod_id (tbl_products (db w)))
      \<and> (\<forall>item \<in> set (order_items order).
            oi_product_id item \<in> prod_id ` set (tbl_products (db w)))
      \<and> (\<forall>k < 2 * length (order_items order). \<exists>u. reply_of w (calls w + k) = Accepted u)"
  let ?w = "w\<lparr>updatingOrderId := Some (order_id order)\<rparr>"
  from a have d: "distinct (map prod_id (tbl_products (db ?w)))"
    and m: "\<forall>item \<in> set (order_items order).
              oi_product_id item \<in> prod_id ` set (tbl_products (db ?w))"
    and r: "\<forall>k < 2 * length (order_items order).
              \<exists>u. reply_of ?w (calls ?w + k) = Accepted u"
    by simp_all
  from reduce_stocks_accepted [OF d m r]
  have "tbl_products (db (snd (reduce_stocks (order_items order) ?w)))
          = spec_decrement_stocks (order_items order) (tbl_products (db w))"
    by simp
  then show "tbl_products (db (handleCompleteOrder order w))
            = spec_decrement_stocks (order_items order) (tbl_products (db w))"
    by (simp only: handleCompleteOrder_products)
next
  show "tbl_products (db (snd (reduce_stock item w))) = tbl_products (db w)
      \<or> tbl_products (db (snd (reduce_stock item w)))
          = spec_decrement_stock item (tbl_products (db w))"
    unfolding spec_decrement_stock_def by (rule reduce_stock_products)
next
  assume "\<forall>p \<in> set (tbl_products (db w)). 0 \<le> prod_stock p"
  then have "\<forall>p \<in> set (tbl_products (db (w\<lparr>updatingOrderId := Some (order_id order)\<rparr>))).
               0 \<le> prod_stock p"
    by simp
  then show "\<forall>p \<in> set (tbl_products (db (handleCompleteOrder order w))). 0 \<le> prod_stock p"
    unfolding handleCompleteOrder_products by (rule reduce_stocks_nonneg)
next
  show "map prod_stock
          (tbl_products (db (admin_shop [Accepted ''q'', Accepted ''q'', Accepted ''q''])))
          = [3, 8]"
    by code_simp
next
  show "map prod_stock (tbl_products (db (handleCompleteOrder order_1
         (admin_shop [Accepted ''q'', Accepted ''q'', Accepted ''q''])))) = [0, 8]"
    by code_simp
qed

theorem completeOrder_stock_never_negative_witness:
  "distinct (map prod_id (tbl_products (db (admin_shop_2 (replicate 7 (Accepted ''q''))))))
   \<and> list_all (\<lambda>item. oi_product_id item
                  \<in> prod_id ` set (tbl_products (db (admin_shop_2 (replicate 7 (Accepted ''q''))))))
        (order_items order_2)
   \<and> map (\<lambda>k. reply_of (admin_shop_2 (replicate 7 (Accepted ''q'')))
                (calls (admin_shop_2 (replicate 7 (Accepted ''q''))) + k))
        [0 ..< 2 * length (order_items order_2)]
       = replicate 6 (Accepted ''q'')
   \<and> map oi_product_id (order_items order_2) = [''A'', ''B'', ''A'']
   \<and> map oi_quantity (order_items order_2) = [2, 3, 5]
   \<and> map prod_stock (tbl_products (db (admin_shop_2 (replicate 7 (Accepted ''q''))))) = [3, 8]
   \<and> map prod_stock (tbl_products (db (handleCompleteOrder order_2
        (admin_shop_2 (replicate 7 (Accepted ''q'')))))) = [0, 5]
   \<and> list_all (\<lambda>p. 0 \<le> prod_stock p)
        (tbl_products (db (handleCompleteOrder order_2
           (admin_shop_2 (replicate 7 (Accepted ''q''))))))"
proof -
  let ?W = "admin_shop_2 (replicate 7 (Accepted ''q''))"
  have prods: "tbl_products (db ?W) = [product_A, product_B]"
    by (simp add: admin_shop_2_def admin_shop_def shop_def)
  have its: "order_items order_2 = order_2_items"
    by (simp add: order_2_def)
  have len: "length (order_items order_2) = 3"
    by (simp add: its order_2_items_def)
  have c: "calls ?W = 0"
    by (simp add: admin_shop_2_def admin_shop_def shop_def)
  have rep: "\<And>k. k < 7 \<Longrightarrow> reply_of ?W k = Accepted ''q''"
    by (simp add: admin_shop_2_def admin_shop_def shop_def scripted_def)
  have d: "distinct (map prod_id (tbl_products (db ?W)))"
    unfolding prods by (simp add: product_A_def product_B_def)
  have m: "\<forall>item \<in> set (order_items order_2).
             oi_product_id item \<in> prod_id ` set (tbl_products (db ?W))"
    unfolding prods its by (simp add: order_2_items_def product_A_def product_B_def)
  have r: "\<forall>k < 2 * length (order_items order_2). \<exists>u. reply_of ?W (calls ?W + k) = Accepted u"
    unfolding len c using rep by simp
  have nonneg: "\<forall>p \<in> set (tbl_products (db ?W)). 0 \<le> prod_stock p"
    unfolding prods by (simp add: product_A_def product_B_def)
  note t = completeOrder_stock_never_negative [of ?W order_2]
  from t d m r have written:
    "tbl_products (db (handleCompleteOrder order_2 ?W))
       = spec_decrement_stocks (order_items order_2) (tbl_products (db ?W))"
    by blast
  have stocks: "map prod_stock (tbl_products (db (handleCompleteOrder order_2 ?W))) = [0, 5]"
    unfolding written prods its
    by (simp add: spec_decrement_stocks_def spec_decrement_stock_def order_2_items_def
          product_A_def product_B_def)
  from t nonneg have after:
    "\<forall>p \<in> set (tbl_products (db (handleCompleteOrder order_2 ?W))). 0 \<le> prod_stock p"
    by blast
  have replies: "map (\<lambda>k. reply_of ?W (calls ?W + k)) [0 ..< 2 * length (order_items order_2)]
                   = replicate 6 (Accepted ''q'')"
    by code_simp
  have ids: "map oi_product_id (order_items order_2) = [''A'', ''B'', ''A'']"
    and qs: "map oi_quantity (order_items order_2) = [2, 3, 5]"
    unfolding its by (simp_all add: order_2_items_def)
  have before: "map prod_stock (tbl_products (db ?W)) = [3, 8]"
    unfolding prods by (simp add: product_A_def product_B_def)
  show ?thesis
    using d m replies ids qs before stocks after by (simp add: list_all_iff)
qed

text \<open>
  Without the proviso the equality fails. \<open>order_2\<close> asks for two of A, three of B and five
  of A, against stocks 3 and 8. When the stock fetch for B is refused or rejected, the loop
  stops there by its \<^verbatim>\<open>throw\<close>: the stock of A has been set to 1, and neither B nor the
  second item for A is touched, where the adjustment of every item gives 0 and 5. When the
  update for \<open>order_1\<close> is refused, the stock of A stays 3.
\<close>

theorem completeOrder_stock_not_decremented:
  "map prod_stock (tbl_products (db (admin_shop_2 [Accepted ''q'', Accepted ''q'', Refused])))
     = [3, 8]
   \<and> map prod_stock (tbl_products (db (handleCompleteOrder order_2
        (admin_shop_2 [Accepted ''q'', Accepted ''q'', Refused])))) = [1, 8]
   \<and> map prod_stock (spec_decrement_stocks (order_items order_2)
        (tbl_products (db (admin_shop_2 [Accepted ''q'', Accepted ''q'', Refused])))) = [0, 5]
   \<and> toasts (handleCompleteOrder order_2
        (admin_shop_2 [Accepted ''q'', Accepted ''q'', Refused])) = [Complete_failed]
   \<and> map prod_stock (tbl_products (db (handleCompleteOrder order_2
        (admin_shop_2 [Accepted ''q'', Accepted ''q'', Thrown])))) = [1, 8]
   \<and> map prod_stock (tbl_products (db (handleCompleteOrder order_1
        (admin_shop [Accepted ''q'', Refused, Accepted ''q''])))) = [3, 8]
   \<and> map prod_stock (spec_decrement_stocks (order_items order_1)
        (tbl_products (db (admin_shop [Accepted ''q'', Refused, Accepted ''q''])))) = [0, 8]"
  by code_simp

text \<open>
  C8. The request that sets the status to \<^verbatim>\<open>delivered\<close> is sent after the loop, and a failed
  stock fetch (or a rejected promise) leaves the loop before it. A stock update that
  resolves to an error does not: its result is not read. In \<open>admin_shop\<close>, with the fetch
  carried out, the update of product A refused and the status update carried out, the order
  ends \<^verbatim>\<open>delivered\<close> with the success notice while the stock of A is still 3.
\<close>

theorem completeOrder_failed_update_still_delivers:
  "map ord_status (tbl_orders (db (admin_shop [Accepted ''q'', Refused, Accepted ''q''])))
     = [''pending'']
   \<and> map ord_status (tbl_orders (db (handleCompleteOrder order_1
        (admin_shop [Accepted ''q'', Refused, Accepted ''q''])))) = [''delivered'']
   \<and> map prod_stock (tbl_products (db (handleCompleteOrder order_1
        (admin_shop [Accepted ''q'', Refused, Accepted ''q''])))) = [3, 8]
   \<and> toasts (handleCompleteOrder order_1
        (admin_shop [Accepted ''q'', Refused, Accepted ''q''])) = [Completed]"
  by code_simp

text \<open>
  What the code keeps of the failure mode: the loop never writes to \<^verbatim>\<open>orders\<close>, a stock
  fetch that is not carried out throws, and when the loop throws no status update is sent,
  so every order keeps its status.
\<close>

lemma reduce_stock_orders:
  "tbl_orders (db (snd (reduce_stock item w))) = tbl_orders (db w)"
proof -
  have a: "tbl_orders (db (snd (request (products_select_stock_single pid) w'))) = tbl_orders (db w')"
    for pid w'
    by (simp add: request_def Let_def products_select_stock_single_def
             split: reply.splits list.splits)
  have b: "tbl_orders (db (snd (request (products_update_stock pid n) w'))) = tbl_orders (db w')"
    for pid n w'
    by (simp add: request_def Let_def products_update_stock_def split: reply.splits)
  obtain r w1 where s: "request (products_select_stock_single (oi_product_id item)) w = (r, w1)"
    by force
  then have w1: "w1 = snd (request (products_select_stock_single (oi_product_id item)) w)"
    by simp
  have o1: "tbl_orders (db w1) = tbl_orders (db w)" unfolding w1 by (rule a)
  show ?thesis
  proof (cases r)
    case (Data stock)
    obtain r2 w2 where u: "request (products_update_stock (oi_product_id item)
                              (max 0 (or_0 stock - oi_quantity item))) w1 = (r2, w2)"
      by force
    then have "w2 = snd (request (products_update_stock (oi_product_id item)
                              (max 0 (or_0 stock - oi_quantity item))) w1)"
      by simp
    then have "tbl_orders (db w2) = tbl_orders (db w1)" by (simp add: b)
    with o1 s Data u show ?thesis
      by (cases r2) (simp_all add: reduce_stock_def Let_def)
  next
    case Error_response
    with o1 s show ?thesis by (simp add: reduce_stock_def)
  next
    case Rejected
    with o1 s show ?thesis by (simp add: reduce_stock_def)
  qed
qed

lemma reduce_stocks_frame:
  "tbl_orders (db (snd (reduce_stocks its w))) = tbl_orders (db w)"
proof (induction its arbitrary: w)
  case Nil
  show ?case by simp
next
  case (Cons item rest)
  obtain r w1 where s: "reduce_stock item w = (r, w1)" by force
  then have "w1 = snd (reduce_stock item w)" by simp
  then have o1: "tbl_orders (db w1) = tbl_orders (db w)" by (simp add: reduce_stock_orders)
  show ?case
  proof (cases r)
    case (Inl e)
    with s o1 show ?thesis by simp
  next
    case (Inr x)
    with s o1 Cons.IH [of w1] show ?thesis by simp
  qed
qed

lemma reduce_stock_fetch_failed:
  "\<forall>u. reply_of w (calls w) \<noteq> Accepted u \<Longrightarrow> fst (reduce_stock item w) = Inl Exn"
  by (cases "reply_of w (calls w)")
     (simp_all add: reduce_stock_def request_Refused request_Thrown)

lemma completeOrder_thrown_keeps_status:
  assumes "fst (reduce_stocks (order_items order)
                  (w\<lparr>updatingOrderId := Some (order_id order)\<rparr>)) = Inl e"
  shows "tbl_orders (db (handleCompleteOrder order w)) = tbl_orders (db w)"
proof -
  obtain r w1 where s: "reduce_stocks (order_items order)
                          (w\<lparr>updatingOrderId := Some (order_id order)\<rparr>) = (r, w1)"
    by force
  then have "w1 = snd (reduce_stocks (order_items order)
                          (w\<lparr>updatingOrderId := Some (order_id order)\<rparr>))"
    by simp
  then have "tbl_orders (db w1) = tbl_orders (db w)"
    by (simp add: reduce_stocks_frame)
  with assms s show ?thesis
    by (simp add: handleCompleteOrder_def toast_show_def)
qed

end
